theory Spec2Isabelle
  imports Main "HOL-Library.Sublist"
begin

section \<open>Python values, exceptions and effects\<close>

text \<open>
  The program of \<^verbatim>\<open>cased_tf/__init__.py\<close> is glue: it reads a configuration, runs
  \<^verbatim>\<open>terraform show -json\<close>, posts the result and prints a report. The values it
  handles are what \<^verbatim>\<open>json.loads\<close>, \<^verbatim>\<open>yaml.safe_load\<close> and
  \<^verbatim>\<open>response.json()\<close> return. A dict is an association list, read with
  \<open>map_of\<close> (the first binding of a key is the dict's); the parsers produce one binding
  per key. Numbers are Python's unbounded ints; numbers with a fraction are outside the
  model. A \<open>string\<close> is a list of 8-bit characters, so text beyond ASCII stands here as
  the bytes the source file holds.
\<close>

datatype json =
    JNull
  | JBool bool
  | JInt int
  | JStr string
  | JArr "json list"
  | JObj "(string \<times> json) list"

text \<open>
  The exceptions the program raises or meets. \<open>UsageError\<close> is \<^verbatim>\<open>click.UsageError\<close>
  with its message, \<open>Abort\<close> is \<^verbatim>\<open>click.Abort\<close>, \<open>RequestException\<close> stands
  for \<^verbatim>\<open>requests.RequestException\<close> and its subclasses, \<open>OSError\<close> for what the
  operating system refuses, \<open>YAMLError\<close> for what the YAML parser rejects.
  \<open>KeyError\<close>, \<open>TypeError\<close> and \<open>AttributeError\<close> are the interpreter's own.
\<close>

datatype py_error =
    UsageError string
  | KeyError string
  | TypeError
  | AttributeError
  | OSError string
  | YAMLError string
  | RequestException string
  | Abort

text \<open>
  Everything the program does to the outside is an event of a trace, in the order it
  happens: \<^verbatim>\<open>click.echo(s)\<close>, \<^verbatim>\<open>click.secho(s, fg=c, bold=b)\<close>, the one
  \<^verbatim>\<open>requests.post(url, json=payload, headers=h)\<close> and the one
  \<^verbatim>\<open>subprocess.run(argv, cwd=d)\<close>.
\<close>

datatype event =
    Echo string
  | Secho string string bool
  | HttpPost string json "(string \<times> string) list"
  | RunProcess "string list" string

text \<open>
  A computation yields the events it emitted and then either the exception that stopped
  it or its result. What was printed before an exception stays printed.
\<close>

type_synonym 'a io = "event list \<times> (py_error + 'a)"

definition ret :: "'a \<Rightarrow> 'a io" where
  "ret x = ([], Inr x)"

definition raise :: "py_error \<Rightarrow> 'a io" where
  "raise e = ([], Inl e)"

definition emit :: "event \<Rightarrow> unit io" where
  "emit ev = ([ev], Inr ())"

definition lift :: "py_error + 'a \<Rightarrow> 'a io" where
  "lift r = ([], r)"

definition bind :: "'a io \<Rightarrow> ('a \<Rightarrow> 'b io) \<Rightarrow> 'b io" where
  "bind m f =
     (case m of
        (out, Inl e) \<Rightarrow> (out, Inl e)
      | (out, Inr x) \<Rightarrow> (case f x of (out', r) \<Rightarrow> (out @ out', r)))"

definition bind_err :: "py_error + 'a \<Rightarrow> ('a \<Rightarrow> py_error + 'b) \<Rightarrow> py_error + 'b" where
  "bind_err r f = (case r of Inl e \<Rightarrow> Inl e | Inr x \<Rightarrow> f x)"

text \<open>A block of statements, and a \<^verbatim>\<open>for\<close> loop over a list.\<close>

fun block :: "unit io list \<Rightarrow> unit io" where
  "block [] = ret ()"
| "block (m # ms) = bind m (\<lambda>_. block ms)"

fun for_each :: "('a \<Rightarrow> unit io) \<Rightarrow> 'a list \<Rightarrow> unit io" where
  "for_each body [] = ret ()"
| "for_each body (x # xs) = bind (body x) (\<lambda>_. for_each body xs)"

subsection \<open>The library the program calls\<close>

text \<open>
  The parsers and printers of the Python library are parameters of the model: every
  theorem below holds whatever they compute. \<open>json_loads\<close> is \<^verbatim>\<open>json.loads\<close>
  (\<open>None\<close> for \<^verbatim>\<open>JSONDecodeError\<close>), \<open>json_dumps\<close> is
  \<^verbatim>\<open>json.dumps(_, indent=2)\<close>, \<open>yaml_safe_load\<close> is \<^verbatim>\<open>yaml.safe_load\<close>,
  \<open>repr_of\<close> is \<^verbatim>\<open>str()\<close> on numbers, lists and dicts, and \<open>exn_text\<close> is
  \<^verbatim>\<open>str(e)\<close> on an exception of the interpreter or of a library.
\<close>

record pylib =
  yaml_safe_load :: "string \<Rightarrow> py_error + json"
  json_loads :: "string \<Rightarrow> json option"
  json_dumps :: "json \<Rightarrow> string"
  repr_of :: "json \<Rightarrow> string"
  exn_text :: "py_error \<Rightarrow> string"

subsection \<open>Python's operations on these values\<close>

text \<open>Truthiness: \<^verbatim>\<open>if x\<close>, \<^verbatim>\<open>not x\<close>, \<^verbatim>\<open>x or y\<close>.\<close>

fun truthy :: "json \<Rightarrow> bool" where
  "truthy JNull = False"
| "truthy (JBool b) = b"
| "truthy (JInt i) = (i \<noteq> 0)"
| "truthy (JStr s) = (s \<noteq> [])"
| "truthy (JArr xs) = (xs \<noteq> [])"
| "truthy (JObj kvs) = (kvs \<noteq> [])"

text \<open>\<^verbatim>\<open>x.get(k, d)\<close>: only a dict has the method.\<close>

fun py_get :: "json \<Rightarrow> string \<Rightarrow> json \<Rightarrow> py_error + json" where
  "py_get (JObj kvs) k d = Inr (case map_of kvs k of Some v \<Rightarrow> v | None \<Rightarrow> d)"
| "py_get _ k d = Inl AttributeError"

text \<open>\<^verbatim>\<open>x[k]\<close> with a string key: a dict without the key raises KeyError, every other
  value raises TypeError.\<close>

fun py_item :: "json \<Rightarrow> string \<Rightarrow> py_error + json" where
  "py_item (JObj kvs) k = (case map_of kvs k of Some v \<Rightarrow> Inr v | None \<Rightarrow> Inl (KeyError k))"
| "py_item _ k = Inl TypeError"

text \<open>\<^verbatim>\<open>x + y\<close>: lists and strings concatenate, ints add (a bool counts as 0 or 1),
  everything else raises TypeError.\<close>

fun as_int :: "json \<Rightarrow> int option" where
  "as_int (JInt i) = Some i"
| "as_int (JBool b) = Some (if b then 1 else 0)"
| "as_int _ = None"

fun py_add :: "json \<Rightarrow> json \<Rightarrow> py_error + json" where
  "py_add (JArr xs) (JArr ys) = Inr (JArr (xs @ ys))"
| "py_add (JStr s) (JStr t) = Inr (JStr (s @ t))"
| "py_add x y =
     (case (as_int x, as_int y) of
        (Some i, Some j) \<Rightarrow> Inr (JInt (i + j))
      | _ \<Rightarrow> Inl TypeError)"

text \<open>\<^verbatim>\<open>for x in v\<close>: a list gives its elements, a string its characters, a dict its
  keys; nothing else is iterable.\<close>

fun py_iter :: "json \<Rightarrow> py_error + json list" where
  "py_iter (JArr xs) = Inr xs"
| "py_iter (JStr s) = Inr (map (\<lambda>c. JStr [c]) s)"
| "py_iter (JObj kvs) = Inr (map (\<lambda>kv. JStr (fst kv)) kvs)"
| "py_iter _ = Inl TypeError"

text \<open>\<^verbatim>\<open>len(v)\<close>.\<close>

fun py_len :: "json \<Rightarrow> py_error + nat" where
  "py_len (JArr xs) = Inr (length xs)"
| "py_len (JStr s) = Inr (length s)"
| "py_len (JObj kvs) = Inr (length kvs)"
| "py_len _ = Inl TypeError"

text \<open>\<^verbatim>\<open>"k" in v\<close>: a key of a dict, an element of a list, a substring of a string.\<close>

fun py_in :: "string \<Rightarrow> json \<Rightarrow> py_error + bool" where
  "py_in k (JObj kvs) = Inr (map_of kvs k \<noteq> None)"
| "py_in k (JArr xs) = Inr (JStr k \<in> set xs)"
| "py_in k (JStr s) = Inr (sublist k s)"
| "py_in k _ = Inl TypeError"

text \<open>\<^verbatim>\<open>str(v)\<close>, as an f-string applies it to a field.\<close>

definition py_format :: "pylib \<Rightarrow> json \<Rightarrow> string" where
  "py_format L v =
     (case v of
        JStr s \<Rightarrow> s
      | JNull \<Rightarrow> ''None''
      | JBool b \<Rightarrow> (if b then ''True'' else ''False'')
      | _ \<Rightarrow> repr_of L v)"

text \<open>The line feed of \<^verbatim>\<open>"\n"\<close>.\<close>

definition nl :: string where
  "nl = [CHR 0x0A]"

section \<open>The report printer\<close>

text \<open>
  The pictographs that open the headings and the bullet, as the bytes of the source file.
\<close>

definition mark_ok :: string where
  "mark_ok = [CHR 0xC3, CHR 0xA2, CHR 0xC5, CHR 0x93, CHR 0xE2, CHR 0x80, CHR 0xA6]"

definition mark_managed :: string where
  "mark_managed = [CHR 0xC3, CHR 0xB0, CHR 0xC5, CHR 0xB8, CHR 0xE2, CHR 0x80, CHR 0x9D]"

definition mark_unmanaged :: string where
  "mark_unmanaged =
     [CHR 0xC3, CHR 0xA2, CHR 0xC5, CHR 0xA1, CHR 0xC2, CHR 0xA0, CHR 0xC3, CHR 0xAF, CHR 0xC2, CHR 0xB8]"

definition mark_missing :: string where
  "mark_missing = [CHR 0xC3, CHR 0xA2, CHR 0xC5, CHR 0x92]"

definition mark_bullet :: string where
  "mark_bullet = [CHR 0xC3, CHR 0xA2, CHR 0xE2, CHR 0x82, CHR 0xAC, CHR 0xC2, CHR 0xA2]"

definition report_heading :: event where
  "report_heading = Echo (nl @ ''=== Infrastructure Drift Report ==='' @ nl)"

definition success_line :: event where
  "success_line = Secho (mark_ok @ '' No resources found'') ''green'' True"

definition managed_heading :: event where
  "managed_heading = Secho (nl @ mark_managed @ '' Managed Resources:'') ''blue'' True"

definition unmanaged_heading :: event where
  "unmanaged_heading = Secho (nl @ mark_unmanaged @ ''  Unmanaged Resources:'') ''yellow'' True"

definition missing_heading :: event where
  "missing_heading = Secho (nl @ mark_missing @ '' Missing Resources:'') ''red'' True"

definition changes_line :: event where
  "changes_line = Secho ''  Changes:'' ''yellow'' False"

text \<open>
  \<^verbatim>\<open>f"<bullet> {resource['service_name']} - {resource['name']} ({resource['id']})"\<close>:
  the three fields are read left to right, and the first one missing raises.
\<close>

definition resource_title :: "pylib \<Rightarrow> json \<Rightarrow> py_error + string" where
  "resource_title L resource =
     bind_err (py_item resource ''service_name'') (\<lambda>sn.
     bind_err (py_item resource ''name'') (\<lambda>n.
     bind_err (py_item resource ''id'') (\<lambda>i.
       Inr (mark_bullet @ '' '' @ py_format L sn @ '' - '' @ py_format L n
            @ '' ('' @ py_format L i @ '')''))))"

text \<open>One entry of a drift sequence: \<^verbatim>\<open>field: expected X, got Y\<close>.\<close>

definition change_text :: "pylib \<Rightarrow> json \<Rightarrow> py_error + string" where
  "change_text L change =
     bind_err (py_item change ''field'') (\<lambda>f.
     bind_err (py_item change ''expected'') (\<lambda>e.
     bind_err (py_item change ''actual'') (\<lambda>a.
       Inr (''    - '' @ py_format L f @ '': expected '' @ py_format L e
            @ '', got '' @ py_format L a))))"

definition print_change :: "pylib \<Rightarrow> json \<Rightarrow> unit io" where
  "print_change L change = bind (lift (change_text L change)) (\<lambda>t. emit (Echo t))"

text \<open>The body of the loop over the managed resources (source lines 163 to 177).\<close>

definition print_managed_resource :: "pylib \<Rightarrow> json \<Rightarrow> unit io" where
  "print_managed_resource L resource =
     bind (lift (py_item resource ''status'')) (\<lambda>status.
       block
        [bind (lift (resource_title L resource)) (\<lambda>t.
           emit (Secho t (if status = JStr ''synced'' then ''green'' else ''yellow'') False)),
         bind (lift (py_item resource ''service_type'')) (\<lambda>t.
           emit (Echo (''  Type: '' @ py_format L t))),
         bind (lift (py_item resource ''status'')) (\<lambda>s.
           emit (Echo (''  Status: '' @ py_format L s))),
         bind (lift (py_get resource ''drift'' JNull)) (\<lambda>d.
           if truthy d then
             block
              [emit changes_line,
               bind (lift (py_item resource ''drift'')) (\<lambda>d'.
               bind (lift (py_iter d')) (for_each (print_change L)))]
           else ret ()),
         emit (Echo [])])"

text \<open>The body of the loops over the unmanaged and the missing resources, which differ
  in the colour alone (source lines 184 to 189 and 196 to 201).\<close>

definition print_plain_resource :: "pylib \<Rightarrow> string \<Rightarrow> json \<Rightarrow> unit io" where
  "print_plain_resource L fg resource =
     block
      [bind (lift (resource_title L resource)) (\<lambda>t. emit (Secho t fg False)),
       bind (lift (py_item resource ''service_type'')) (\<lambda>t.
         emit (Echo (''  Type: '' @ py_format L t))),
       emit (Echo [])]"

text \<open>A bucket of the report: \<^verbatim>\<open>b = report.get(key, [])\<close>, and if it is truthy its
  heading and the loop.\<close>

definition print_bucket :: "json \<Rightarrow> string \<Rightarrow> event \<Rightarrow> (json \<Rightarrow> unit io) \<Rightarrow> unit io" where
  "print_bucket report key heading body =
     bind (lift (py_get report key (JArr []))) (\<lambda>b.
       if truthy b then
         block [emit heading, bind (lift (py_iter b)) (for_each body)]
       else ret ())"

text \<open>\<^verbatim>\<open>report.get("managed_resources", []) + report.get("unmanaged_resources", [])
  + report.get("missing_resources", [])\<close>.\<close>

definition all_resources :: "json \<Rightarrow> py_error + json" where
  "all_resources report =
     bind_err (py_get report ''managed_resources'' (JArr [])) (\<lambda>m.
     bind_err (py_get report ''unmanaged_resources'' (JArr [])) (\<lambda>u.
     bind_err (py_add m u) (\<lambda>mu.
     bind_err (py_get report ''missing_resources'' (JArr [])) (\<lambda>mi.
       py_add mu mi))))"

definition print_drift_report :: "pylib \<Rightarrow> json \<Rightarrow> unit io" where
  "print_drift_report L report =
     (if \<not> truthy report then ret ()
      else
        block
         [emit report_heading,
          bind (lift (all_resources report)) (\<lambda>every.
            if \<not> truthy every then emit success_line
            else
              block
               [print_bucket report ''managed_resources'' managed_heading
                  (print_managed_resource L),
                print_bucket report ''unmanaged_resources'' unmanaged_heading
                  (print_plain_resource L ''yellow''),
                print_bucket report ''missing_resources'' missing_heading
                  (print_plain_resource L ''red'')])])"

section \<open>The world the program reads\<close>

text \<open>
  The program changes nothing outside: it asks the file system, the environment, the
  \<^verbatim>\<open>terraform\<close> executable and the remote service, and prints. The answers are the
  fields of a record. \<open>read_text\<close> is \<^verbatim>\<open>open(path)\<close> with the read that the YAML
  loader does on the handle; \<open>run_process\<close> is \<^verbatim>\<open>subprocess.run(argv,
  capture_output=True, text=True, cwd=d)\<close>, which raises only when the executable cannot be
  started; \<open>http_post\<close> is \<^verbatim>\<open>requests.post\<close>. A response is known by the two
  methods the program calls on it: what \<^verbatim>\<open>raise_for_status()\<close> raises, if anything,
  and what \<^verbatim>\<open>json()\<close> returns or raises.
\<close>

record completed_process =
  returncode :: int
  stdout :: string
  stderr :: string

record http_response =
  raise_for_status :: "py_error option"
  response_json :: "py_error + json"

record world =
  path_exists :: "string \<Rightarrow> bool"
  expanduser :: "string \<Rightarrow> string"
  getenv :: "string \<Rightarrow> string option"
  getcwd :: string
  listdir :: "string \<Rightarrow> py_error + string list"
  read_text :: "string \<Rightarrow> py_error + string"
  run_process :: "string list \<Rightarrow> string \<Rightarrow> py_error + completed_process"
  http_post :: "string \<Rightarrow> json \<Rightarrow> (string \<times> string) list \<Rightarrow> py_error + http_response"

text \<open>\<^verbatim>\<open>str(e)\<close>: an exception that carries its message prints it.\<close>

definition str_exn :: "pylib \<Rightarrow> py_error \<Rightarrow> string" where
  "str_exn L e =
     (case e of
        UsageError m \<Rightarrow> m
      | RequestException m \<Rightarrow> m
      | OSError m \<Rightarrow> m
      | YAMLError m \<Rightarrow> m
      | _ \<Rightarrow> exn_text L e)"

text \<open>The truthy value of an \<^verbatim>\<open>Optional[str]\<close>, if it has one: \<open>None\<close> and the
  empty string are falsy.\<close>

definition nonempty :: "string option \<Rightarrow> string option" where
  "nonempty so = (case so of Some s \<Rightarrow> (if s = [] then None else Some s) | None \<Rightarrow> None)"

section \<open>The configuration loader\<close>

text \<open>The three default locations, in the order of the source (lines 15 to 19).\<close>

definition default_locations :: "world \<Rightarrow> string list" where
  "default_locations W =
     [expanduser W ''~/.config/cased/config.yml'',
      expanduser W ''~/.cased/config.yml'',
      ''.cased.yml'']"

text \<open>
  The loop of lines 20 to 24: the first location that exists is announced and taken;
  \<open>None\<close> when the loop ends without a \<^verbatim>\<open>break\<close>.
\<close>

fun first_existing :: "world \<Rightarrow> string list \<Rightarrow> string option" where
  "first_existing W [] = None"
| "first_existing W (loc # locs) =
     (if path_exists W loc then Some loc else first_existing W locs)"

text \<open>
  Lines 30 to 36: the file is opened and parsed, a falsy document becomes the empty
  dict, the document is echoed and returned. Any exception in between, of
  \<^verbatim>\<open>open\<close> or of the parser, leaves as a usage error with the exception's text.
\<close>

definition parse_config :: "pylib \<Rightarrow> world \<Rightarrow> string \<Rightarrow> json io" where
  "parse_config L W config_file =
     (case bind_err (read_text W config_file) (yaml_safe_load L) of
        Inl e \<Rightarrow> raise (UsageError (''Failed to load config file: '' @ str_exn L e))
      | Inr doc \<Rightarrow>
          (let config = (if truthy doc then doc else JObj []) in
           bind (emit (Echo (''Loaded config: '' @ json_dumps L config))) (\<lambda>_. ret config)))"

text \<open>
  \<^verbatim>\<open>load_config(config_file)\<close>. The argument is \<^verbatim>\<open>Optional[str]\<close>:
  \<open>None\<close> and the empty string are both falsy. The default locations are searched
  only when no path was passed (line 13).
\<close>

definition load_config :: "pylib \<Rightarrow> world \<Rightarrow> string option \<Rightarrow> json io" where
  "load_config L W config_file =
     (let given = nonempty config_file;
          found = (case given of Some p \<Rightarrow> None | None \<Rightarrow> first_existing W (default_locations W));
          chosen = (case given of Some p \<Rightarrow> Some p | None \<Rightarrow> found)
      in
        bind (case found of Some loc \<Rightarrow> emit (Echo (''Found config file: '' @ loc)) | None \<Rightarrow> ret ())
          (\<lambda>_.
            case chosen of
              None \<Rightarrow> bind (emit (Echo ''No config file found'')) (\<lambda>_. ret (JObj []))
            | Some p \<Rightarrow>
                if \<not> path_exists W p
                then bind (emit (Echo ''No config file found'')) (\<lambda>_. ret (JObj []))
                else parse_config L W p))"

section \<open>The state collector\<close>

text \<open>\<^verbatim>\<open>os.path.join(a, b)\<close> for two components.\<close>

definition path_join :: "string \<Rightarrow> string \<Rightarrow> string" where
  "path_join a b =
     (if prefix ''/'' b then b
      else if a = [] \<or> suffix ''/'' a then a @ b
      else a @ ''/'' @ b)"

text \<open>\<^verbatim>\<open>TerraformAnalyzer(working_dir)\<close>: \<^verbatim>\<open>working_dir or os.getcwd()\<close>.\<close>

definition TerraformAnalyzer :: "world \<Rightarrow> string option \<Rightarrow> string" where
  "TerraformAnalyzer W working_dir =
     (case working_dir of
        Some d \<Rightarrow> (if d = [] then getcwd W else d)
      | None \<Rightarrow> getcwd W)"

definition no_tf_files_message :: "string \<Rightarrow> string" where
  "no_tf_files_message working_dir =
     ''No .tf files found in '' @ working_dir @ ''. ''
     @ ''Please run this command from a directory containing Terraform files ''
     @ ''or specify --working-dir''"

definition not_initialized_message :: string where
  "not_initialized_message = ''Terraform not initialized. Please run 'terraform init' first.''"

text \<open>\<^verbatim>\<open>validate_terraform_directory\<close> (lines 43 to 55), on the analyzer's
  working directory.\<close>

definition validate_terraform_directory :: "world \<Rightarrow> string \<Rightarrow> py_error + unit" where
  "validate_terraform_directory W working_dir =
     bind_err (listdir W working_dir) (\<lambda>names.
       let tf_files = filter (suffix ''.tf'') names in
       if tf_files = [] then Inl (UsageError (no_tf_files_message working_dir))
       else if \<not> path_exists W (path_join working_dir ''.terraform'')
       then Inl (UsageError not_initialized_message)
       else Inr ())"

text \<open>\<^verbatim>\<open>str(n)\<close> for the count that \<^verbatim>\<open>len\<close> returns.\<close>

fun decimal :: "nat \<Rightarrow> string" where
  "decimal n =
     (if 10 \<le> n then decimal (n div 10) @ [''0123456789'' ! (n mod 10)]
      else [''0123456789'' ! n])"

text \<open>\<^verbatim>\<open>t.startswith(p)\<close>: a method of strings alone.\<close>

fun py_startswith :: "json \<Rightarrow> string \<Rightarrow> py_error + bool" where
  "py_startswith (JStr s) p = Inr (prefix p s)"
| "py_startswith _ p = Inl AttributeError"

text \<open>
  The line of one resource in the summary (lines 83 to 86):
  \<^verbatim>\<open>f"{prefix}  - {r['type']}: {r.get('name')} ({r.get('values', {}).get('id', 'no id')})"\<close>.
\<close>

definition resource_summary_text :: "pylib \<Rightarrow> string \<Rightarrow> json \<Rightarrow> py_error + string" where
  "resource_summary_text L pre r =
     bind_err (py_item r ''type'') (\<lambda>t.
     bind_err (py_get r ''name'' JNull) (\<lambda>n.
     bind_err (py_get r ''values'' (JObj [])) (\<lambda>vs.
     bind_err (py_get vs ''id'' (JStr ''no id'')) (\<lambda>i.
       Inr (pre @ ''  - '' @ py_format L t @ '': '' @ py_format L n
            @ '' ('' @ py_format L i @ '')'')))))"

definition print_resource_summary :: "pylib \<Rightarrow> string \<Rightarrow> json \<Rightarrow> unit io" where
  "print_resource_summary L pre r =
     bind (lift (bind_err (py_get r ''type'' (JStr [])) (\<lambda>t. py_startswith t ''aws_''))) (\<lambda>aws.
       if aws then bind (lift (resource_summary_text L pre r)) (\<lambda>t. emit (Echo t))
       else ret ())"

text \<open>
  \<^verbatim>\<open>print_module_resources(module_data, prefix)\<close> (lines 78 to 91), the recursive
  walk over the modules. The loop over the child modules is written with \<open>case\<close> and
  \<open>map\<close>, so that the definition records where each child comes from; it is the same
  loop as \<open>for_each\<close>.
\<close>

function print_module_resources :: "pylib \<Rightarrow> json \<Rightarrow> string \<Rightarrow> unit io" where
  "print_module_resources L module_data pre =
     bind (lift (py_get module_data ''resources'' (JArr []))) (\<lambda>resources.
     bind (lift (py_len resources)) (\<lambda>n.
       block
        [emit (Echo (pre @ ''- Found '' @ decimal n @ '' resources in module'')),
         bind (lift (py_iter resources)) (for_each (print_resource_summary L pre)),
         (case bind_err (py_get module_data ''child_modules'' (JArr [])) py_iter of
            Inl e \<Rightarrow> raise e
          | Inr children \<Rightarrow>
              block (map (\<lambda>child.
                case py_get child ''address'' (JStr ''unknown'') of
                  Inl e \<Rightarrow> raise e
                | Inr address \<Rightarrow>
                    block
                     [emit (Echo (pre @ ''- Child module: '' @ py_format L address)),
                      print_module_resources L child (pre @ ''  '')]) children))]))"
  by pat_completeness auto
termination
proof (relation "measure (\<lambda>(L, module_data, pre). size module_data)")
  show "wf (measure (\<lambda>(L, module_data, pre). size module_data))"
    by simp
next
  fix L :: pylib and module_data :: json and pre :: string
    and children :: "json list" and child address :: json
  assume it: "bind_err (py_get module_data ''child_modules'' (JArr [])) py_iter = Inr children"
    and mem: "child \<in> set children"
    and addr: "py_get child ''address'' (JStr ''unknown'') = Inr address"
  have lookup: "map_of kvs k = Some v \<Longrightarrow> size v < size (JObj kvs)"
    for kvs :: "(string \<times> json) list" and k v
    by (induction kvs) (auto split: if_splits)
  have elem: "x \<in> set xs \<Longrightarrow> size x < size (JArr xs)" for x :: json and xs
    by (induction xs) auto
  obtain kvs' where child: "child = JObj kvs'"
    using addr by (cases child) auto
  obtain kvs where md: "module_data = JObj kvs"
    using it by (cases module_data) (auto simp: bind_err_def)
  define v where "v = (case map_of kvs ''child_modules'' of Some v \<Rightarrow> v | None \<Rightarrow> JArr [])"
  have iter: "py_iter v = Inr children"
    using it by (simp add: md bind_err_def v_def)
  have arr: "v = JArr children"
    using iter mem child by (cases v) auto
  have "children \<noteq> []"
    using mem by auto
  then have "map_of kvs ''child_modules'' = Some (JArr children)"
    using arr by (auto simp: v_def split: option.splits)
  then have "size (JArr children) < size module_data"
    unfolding md by (rule lookup)
  moreover have "size child < size (JArr children)"
    using mem by (rule elem)
  ultimately show "((L, child, pre @ ''  ''), (L, module_data, pre))
      \<in> measure (\<lambda>(L, module_data, pre). size module_data)"
    by simp
qed

declare print_module_resources.simps [simp del]

text \<open>The summary that follows a successful parse (lines 73 to 93).\<close>

definition show_summary :: "pylib \<Rightarrow> json \<Rightarrow> unit io" where
  "show_summary L output =
     block
      [emit (Echo (nl @ ''Terraform output summary:'')),
       bind (lift (py_in ''values'' output)) (\<lambda>has_values.
         if has_values then
           block
            [emit (Echo ''- Found values section''),
             bind (lift (bind_err (py_item output ''values'') (py_in ''root_module''))) (\<lambda>has_root.
               if has_root then
                 bind (lift (bind_err (py_item output ''values'') (\<lambda>vs. py_item vs ''root_module'')))
                   (\<lambda>root. print_module_resources L root [])
               else ret ())]
         else ret ())]"

definition show_failed_message :: "string \<Rightarrow> string" where
  "show_failed_message err = ''terraform show failed:'' @ nl @ err"

definition not_json_message :: "string \<Rightarrow> string" where
  "not_json_message out =
     ''Failed to parse terraform show output as JSON. '' @ ''Output: '' @ take 200 out @ ''...''"

text \<open>\<^verbatim>\<open>get_show_output\<close> (lines 57 to 99), on the analyzer's working directory.\<close>

definition get_show_output :: "pylib \<Rightarrow> world \<Rightarrow> string \<Rightarrow> json io" where
  "get_show_output L W working_dir =
     bind (lift (validate_terraform_directory W working_dir)) (\<lambda>_.
     bind (emit (RunProcess [''terraform'', ''show'', ''-json''] working_dir)) (\<lambda>_.
     bind (lift (run_process W [''terraform'', ''show'', ''-json''] working_dir)) (\<lambda>result.
       if returncode result \<noteq> 0 then raise (UsageError (show_failed_message (stderr result)))
       else
         case json_loads L (stdout result) of
           None \<Rightarrow> raise (UsageError (not_json_message (stdout result)))
         | Some output \<Rightarrow> bind (show_summary L output) (\<lambda>_. ret output))))"

section \<open>The remote analyzer client\<close>

text \<open>\<^verbatim>\<open>s.rstrip(chars)\<close>: the trailing characters that are among \<open>chars\<close> go.\<close>

definition py_rstrip :: "string \<Rightarrow> string \<Rightarrow> string" where
  "py_rstrip chars s = rev (dropWhile (\<lambda>c. c \<in> set chars) (rev s))"

text \<open>
  \<^verbatim>\<open>s.replace(old, new)\<close>: the occurrences of \<open>old\<close> are found from the left, none
  overlapping another, and each becomes \<open>new\<close>. With an empty \<open>old\<close>, \<open>new\<close> goes
  before every character and at the end.
\<close>

function replace_scan :: "string \<Rightarrow> string \<Rightarrow> string \<Rightarrow> string" where
  "replace_scan old new [] = []"
| "replace_scan old new (c # cs) =
     (if old \<noteq> [] \<and> prefix old (c # cs)
      then new @ replace_scan old new (drop (length old) (c # cs))
      else c # replace_scan old new cs)"
  by pat_completeness auto
termination
  by (relation "measure (\<lambda>(old, new, s). length s)") auto

definition py_replace :: "string \<Rightarrow> string \<Rightarrow> string \<Rightarrow> string" where
  "py_replace old new s =
     (if old = [] then new @ concat (map (\<lambda>c. c # new) s) else replace_scan old new s)"

record CasedAPI =
  api_key :: json
  base_url :: string

text \<open>
  \<^verbatim>\<open>CasedAPI(api_key, base_url)\<close> (lines 103 to 105). The caller passes what the
  configuration gave, which need not be a string; only a string has \<^verbatim>\<open>rstrip\<close>.
\<close>

definition CasedAPI_init :: "json \<Rightarrow> json \<Rightarrow> py_error + CasedAPI" where
  "CasedAPI_init key url =
     (case url of
        JStr s \<Rightarrow> Inr \<lparr>api_key = key, base_url = py_replace ''/api/v1'' [] (py_rstrip ''/'' s)\<rparr>
      | _ \<Rightarrow> Inl AttributeError)"

text \<open>Line 115: \<^verbatim>\<open>f"{self.base_url}/api/v1/projects/{project}/infra/local"\<close>.\<close>

definition endpoint_url :: "pylib \<Rightarrow> CasedAPI \<Rightarrow> json \<Rightarrow> string" where
  "endpoint_url L self project =
     base_url self @ ''/api/v1/projects/'' @ py_format L project @ ''/infra/local''"

definition request_payload :: "json \<Rightarrow> json \<Rightarrow> json" where
  "request_payload show_output environment =
     JObj [(''terraform_show_output'', show_output), (''environment'', environment)]"

definition request_headers :: "pylib \<Rightarrow> CasedAPI \<Rightarrow> (string \<times> string) list" where
  "request_headers L self =
     [(''Authorization'', ''Bearer '' @ py_format L (api_key self)),
      (''Content-Type'', ''application/json'')]"

text \<open>What dry-run mode prints (lines 122 to 129).\<close>

definition dry_run_output :: "pylib \<Rightarrow> string \<Rightarrow> json \<Rightarrow> event list" where
  "dry_run_output L url payload =
     [Secho (nl @ ''=== Dry Run - API Request Details ==='' @ nl) ''yellow'' False,
      Echo (''URL: '' @ url),
      Echo (nl @ ''Headers:''),
      Echo ''  Authorization: Bearer [REDACTED]'',
      Echo ''  Content-Type: application/json'',
      Echo (nl @ ''Payload:''),
      Echo (json_dumps L payload),
      Echo (nl @ ''No API call will be made in dry-run mode.'')]"

text \<open>\<^verbatim>\<open>CasedAPI.analyze_terraform\<close> (lines 107 to 138).\<close>

definition analyze_terraform ::
    "pylib \<Rightarrow> world \<Rightarrow> CasedAPI \<Rightarrow> json \<Rightarrow> json \<Rightarrow> json \<Rightarrow> bool \<Rightarrow> json io" where
  "analyze_terraform L W self project environment show_output dry_run =
     (let url = endpoint_url L self project;
          payload = request_payload show_output environment
      in
        if dry_run then
          bind (for_each emit (dry_run_output L url payload)) (\<lambda>_. ret (JObj []))
        else
          bind (emit (HttpPost url payload (request_headers L self))) (\<lambda>_.
          bind (lift (http_post W url payload (request_headers L self))) (\<lambda>response.
          bind (lift (case raise_for_status response of Some e \<Rightarrow> Inl e | None \<Rightarrow> Inr ())) (\<lambda>_.
            lift (response_json response)))))"

fun is_http_post :: "event \<Rightarrow> bool" where
  "is_http_post (HttpPost url payload headers) = True"
| "is_http_post _ = False"

section \<open>The command\<close>

text \<open>
  The parameters of \<^verbatim>\<open>analyze\<close> as click passes them (lines 253 to 262), and the
  command line they come from. The option declarations (lines 210 to 252) give
  \<^verbatim>\<open>--api-key\<close> and \<^verbatim>\<open>--api-url\<close> an \<^verbatim>\<open>envvar\<close>, and
  \<^verbatim>\<open>--api-url\<close> a default: click takes the value of the command line, else the
  environment variable when it is set and not empty, else the default. The checks click
  does on the two path options are not part of the model.
\<close>

record analyze_args =
  arg_project :: "string option"
  arg_environment :: "string option"
  arg_api_key :: "string option"
  arg_api_url :: string
  arg_working_dir :: "string option"
  arg_dry_run :: bool
  arg_config :: "string option"
  arg_local :: bool

record cli_flags =
  opt_project :: "string option"
  opt_environment :: "string option"
  opt_api_key :: "string option"
  opt_api_url :: "string option"
  opt_working_dir :: "string option"
  opt_dry_run :: bool
  opt_config :: "string option"
  opt_local :: bool

definition default_api_url :: string where
  "default_api_url = ''https://app.cased.com''"

definition click_params :: "world \<Rightarrow> cli_flags \<Rightarrow> analyze_args" where
  "click_params W flags =
     \<lparr>arg_project = opt_project flags,
      arg_environment = opt_environment flags,
      arg_api_key =
        (case opt_api_key flags of
           Some k \<Rightarrow> Some k
         | None \<Rightarrow> nonempty (getenv W ''CASED_API_KEY'')),
      arg_api_url =
        (case opt_api_url flags of
           Some u \<Rightarrow> u
         | None \<Rightarrow>
             (case nonempty (getenv W ''CASED_API_URL'') of
                Some u \<Rightarrow> u
              | None \<Rightarrow> default_api_url)),
      arg_working_dir = opt_working_dir flags,
      arg_dry_run = opt_dry_run flags,
      arg_config = opt_config flags,
      arg_local = opt_local flags\<rparr>"

text \<open>Lines 269 and 270: \<^verbatim>\<open>if not api_key: api_key = os.getenv("CASED_API_KEY") or
  cfg.get("api_key")\<close>.\<close>

definition resolve_api_key :: "world \<Rightarrow> json \<Rightarrow> analyze_args \<Rightarrow> py_error + json" where
  "resolve_api_key W cfg args =
     (case nonempty (arg_api_key args) of
        Some k \<Rightarrow> Inr (JStr k)
      | None \<Rightarrow>
          (case nonempty (getenv W ''CASED_API_KEY'') of
             Some k \<Rightarrow> Inr (JStr k)
           | None \<Rightarrow> py_get cfg ''api_key'' JNull))"

text \<open>Lines 272 to 275: \<^verbatim>\<open>--local\<close> first, and the environment and the file only
  where the parameter still is the default.\<close>

definition resolve_api_url :: "world \<Rightarrow> json \<Rightarrow> analyze_args \<Rightarrow> py_error + json" where
  "resolve_api_url W cfg args =
     (if arg_local args then Inr (JStr ''http://localhost:3000'')
      else if arg_api_url args = ''https://app.cased.com'' then
        (case nonempty (getenv W ''CASED_API_URL'') of
           Some u \<Rightarrow> Inr (JStr u)
         | None \<Rightarrow> py_get cfg ''api_url'' (JStr (arg_api_url args)))
      else Inr (JStr (arg_api_url args)))"

text \<open>Lines 277 to 279 and 281 to 283: \<^verbatim>\<open>x = x or cfg.get(key)\<close>, and a usage
  error when the result is falsy.\<close>

definition resolve_required ::
    "json \<Rightarrow> string option \<Rightarrow> string \<Rightarrow> string \<Rightarrow> py_error + json" where
  "resolve_required cfg arg key message =
     (case nonempty arg of
        Some v \<Rightarrow> Inr (JStr v)
      | None \<Rightarrow>
          bind_err (py_get cfg key JNull) (\<lambda>v.
            if \<not> truthy v then Inl (UsageError message) else Inr v))"

definition resolve_project :: "json \<Rightarrow> analyze_args \<Rightarrow> py_error + json" where
  "resolve_project cfg args =
     resolve_required cfg (arg_project args) ''project''
       ''Project must be specified via --project or config file''"

definition resolve_environment :: "json \<Rightarrow> analyze_args \<Rightarrow> py_error + json" where
  "resolve_environment cfg args =
     resolve_required cfg (arg_environment args) ''environment''
       ''Environment must be specified via --environment or config file''"

text \<open>Lines 285 and 286: the working directory of the file counts only without the
  option, and \<^verbatim>\<open>os.path.expanduser\<close> takes a string.\<close>

definition resolve_working_dir :: "world \<Rightarrow> json \<Rightarrow> analyze_args \<Rightarrow> py_error + string option" where
  "resolve_working_dir W cfg args =
     (case nonempty (arg_working_dir args) of
        Some d \<Rightarrow> Inr (Some d)
      | None \<Rightarrow>
          bind_err (py_get cfg ''working_dir'' JNull) (\<lambda>d.
            if truthy d then
              (case d of JStr s \<Rightarrow> Inr (Some (expanduser W s)) | _ \<Rightarrow> Inl TypeError)
            else Inr (arg_working_dir args)))"

text \<open>Line 295: \<^verbatim>\<open>api_key or "dry-run-key"\<close>.\<close>

definition key_or_placeholder :: "json \<Rightarrow> json" where
  "key_or_placeholder k = (if truthy k then k else JStr ''dry-run-key'')"

record session =
  the_project :: json
  the_environment :: json
  the_analyzer :: string
  the_api :: CasedAPI

text \<open>Lines 268 to 295, from the loaded configuration to the analyzer and the client.
  Nothing is printed on the way, so the steps are the results or the first exception.\<close>

definition analyze_setup :: "world \<Rightarrow> json \<Rightarrow> analyze_args \<Rightarrow> py_error + session" where
  "analyze_setup W cfg args =
     bind_err (resolve_api_key W cfg args) (\<lambda>key.
     bind_err (resolve_api_url W cfg args) (\<lambda>url.
     bind_err (resolve_project cfg args) (\<lambda>project.
     bind_err (resolve_environment cfg args) (\<lambda>environment.
     bind_err (resolve_working_dir W cfg args) (\<lambda>working_dir.
       if \<not> arg_dry_run args \<and> \<not> truthy key
       then Inl (UsageError ''--api-key is required unless using --dry-run'')
       else
         bind_err (CasedAPI_init (key_or_placeholder key) url) (\<lambda>api.
           Inr \<lparr>the_project = project, the_environment = environment,
                the_analyzer = TerraformAnalyzer W working_dir, the_api = api\<rparr>))))))"

text \<open>The body of the \<^verbatim>\<open>try\<close> (lines 266 to 312).\<close>

definition analyze_body :: "pylib \<Rightarrow> world \<Rightarrow> analyze_args \<Rightarrow> unit io" where
  "analyze_body L W args =
     bind (load_config L W (arg_config args)) (\<lambda>cfg.
     bind (lift (analyze_setup W cfg args)) (\<lambda>s.
     bind (emit (Echo ''Running terraform show...'')) (\<lambda>_.
     bind (get_show_output L W (the_analyzer s)) (\<lambda>show_output.
     bind (emit (if arg_dry_run args
                 then Secho (nl @ ''Dry run mode - showing what would be analyzed:'') ''yellow'' False
                 else Echo (nl @ ''Analyzing infrastructure...''))) (\<lambda>_.
     bind (analyze_terraform L W (the_api s) (the_project s) (the_environment s)
             show_output (arg_dry_run args)) (\<lambda>report.
       print_drift_report L report))))))"

text \<open>
  The handlers (lines 314 to 323): the message in red, then \<^verbatim>\<open>click.Abort\<close>.
  \<^verbatim>\<open>subprocess.run\<close> is called without \<^verbatim>\<open>check\<close>, so the first handler, for
  \<^verbatim>\<open>CalledProcessError\<close>, never runs.
\<close>

definition error_report :: "pylib \<Rightarrow> py_error \<Rightarrow> event" where
  "error_report L e =
     (case e of
        RequestException m \<Rightarrow> Secho (nl @ ''Error calling Cased API: '' @ str_exn L e) ''red'' False
      | _ \<Rightarrow> Secho (nl @ ''Unexpected error: '' @ str_exn L e) ''red'' False)"

definition analyze :: "pylib \<Rightarrow> world \<Rightarrow> analyze_args \<Rightarrow> unit io" where
  "analyze L W args =
     (case analyze_body L W args of
        (out, Inl e) \<Rightarrow> (out @ [error_report L e], Inl Abort)
      | (out, Inr u) \<Rightarrow> (out, Inr u))"

section \<open>A concrete library and a concrete world\<close>

text \<open>
  To run the model on concrete inputs the library needs an instance. \<open>render\<close> prints a
  document on one line; the two parsers of the instance know the few texts that the runs
  below read.
\<close>

fun join :: "string \<Rightarrow> string list \<Rightarrow> string" where
  "join sep [] = []"
| "join sep [x] = x"
| "join sep (x # y # ys) = x @ sep @ join sep (y # ys)"

fun render :: "json \<Rightarrow> string" where
  "render JNull = ''null''"
| "render (JBool b) = (if b then ''true'' else ''false'')"
| "render (JInt i) = (if i < 0 then ''-'' else []) @ decimal (nat \<bar>i\<bar>)"
| "render (JStr s) = ''\"'' @ s @ ''\"''"
| "render (JArr xs) = ''['' @ join '', '' (map render xs) @ '']''"
| "render (JObj kvs) =
     ''{'' @ join '', '' (map (\<lambda>kv. ''\"'' @ fst kv @ ''\": '' @ render (snd kv)) kvs) @ ''}''"

definition sample_config :: json where
  "sample_config = JObj [(''project'', JStr ''acme/infra''), (''environment'', JStr ''staging'')]"

definition sample_state :: json where
  "sample_state =
     JObj [(''format_version'', JStr ''1.0''),
           (''values'', JObj [(''root_module'', JObj
              [(''resources'',
                 JArr [JObj [(''type'', JStr ''aws_s3_bucket''), (''name'', JStr ''logs''),
                             (''values'', JObj [(''id'', JStr ''logs-1'')])]]),
               (''child_modules'',
                 JArr [JObj [(''address'', JStr ''module.db''),
                             (''resources'',
                                JArr [JObj [(''type'', JStr ''aws_db_instance''),
                                            (''name'', JStr ''main'')],
                                      JObj [(''type'', JStr ''random_id''),
                                            (''name'', JStr ''suffix'')]])]])])])]"

definition sample_lib :: pylib where
  "sample_lib =
     \<lparr>yaml_safe_load =
        (\<lambda>text. if text = ''project: acme/infra'' @ nl @ ''environment: staging'' @ nl
                 then Inr sample_config
                 else if text = [] then Inr JNull
                 else Inl (YAMLError ''mapping values are not allowed here'')),
      json_loads =
        (\<lambda>text. if text = ''{}'' then Some (JObj [])
                 else if text = ''state'' then Some sample_state
                 else None),
      json_dumps = render,
      repr_of = render,
      exn_text = (\<lambda>e. ''error'')\<rparr>"

text \<open>
  A world with a home directory \<^verbatim>\<open>/home/u\<close>, a configuration at
  \<^verbatim>\<open>/home/u/.cased/config.yml\<close>, and an initialised Terraform directory
  \<^verbatim>\<open>/work\<close> in which \<^verbatim>\<open>terraform show -json\<close> prints the text
  \<^verbatim>\<open>state\<close>; \<^verbatim>\<open>/empty\<close> holds a README alone, where the same command
  would print an empty document, and \<^verbatim>\<open>/fresh\<close> has sources and was never
  initialised. \<^verbatim>\<open>/stale\<close> and \<^verbatim>\<open>/garbled\<close> are initialised as well; in the
  first the command fails, in the second it prints a warning instead of a document.
\<close>

definition sample_world :: world where
  "sample_world =
     \<lparr>path_exists =
        (\<lambda>p. p \<in> set [''/home/u/.cased/config.yml'', ''/work'', ''/work/.terraform'',
                        ''/empty'', ''/fresh'', ''/stale'', ''/stale/.terraform'',
                        ''/garbled'', ''/garbled/.terraform'', ''/etc/broken.yml'']),
      expanduser = (\<lambda>p. if prefix ''~/'' p then ''/home/u'' @ drop 1 p else p),
      getenv = (\<lambda>name. None),
      getcwd = ''/work'',
      listdir =
        (\<lambda>d. if d \<in> set [''/work'', ''/stale'', ''/garbled'']
               then Inr [''main.tf'', ''.terraform'', ''README.md'']
               else if d = ''/empty'' then Inr [''README.md'']
               else if d = ''/fresh'' then Inr [''main.tf'']
               else Inl (OSError ''No such file or directory'')),
      read_text =
        (\<lambda>p. if p = ''/home/u/.cased/config.yml''
               then Inr (''project: acme/infra'' @ nl @ ''environment: staging'' @ nl)
               else if p = ''/etc/broken.yml'' then Inr ''a: b: c''
               else Inl (OSError ''No such file or directory'')),
      run_process =
        (\<lambda>argv d. if d = ''/work''
                    then Inr \<lparr>returncode = 0, stdout = ''state'', stderr = []\<rparr>
                    else if d = ''/empty''
                    then Inr \<lparr>returncode = 0, stdout = ''{}'', stderr = []\<rparr>
                    else if d = ''/garbled''
                    then Inr \<lparr>returncode = 0, stdout = ''Warning: deprecated'', stderr = []\<rparr>
                    else Inr \<lparr>returncode = 1, stdout = [], stderr = ''No state file was found''\<rparr>),
      http_post =
        (\<lambda>url payload headers.
           Inr \<lparr>raise_for_status = None, response_json = Inr (JObj [])\<rparr>)\<rparr>"

section \<open>Notions the statements use\<close>

text \<open>A property of every event of a trace, and the bold lines, which are the headings
  and the success line.\<close>

definition emits_only :: "(event \<Rightarrow> bool) \<Rightarrow> 'a io \<Rightarrow> bool" where
  "emits_only P m = list_all P (fst m)"

fun is_bold :: "event \<Rightarrow> bool" where
  "is_bold (Secho t fg b) = b"
| "is_bold _ = False"

definition bucket_keys :: "string list" where
  "bucket_keys = [''managed_resources'', ''unmanaged_resources'', ''missing_resources'']"

text \<open>
  The records of a report, as the service sends them: a resource has the keys
  \<^verbatim>\<open>service_name\<close>, \<^verbatim>\<open>name\<close>, \<^verbatim>\<open>id\<close>, \<^verbatim>\<open>service_type\<close> and
  \<^verbatim>\<open>status\<close>; a managed one may have a \<^verbatim>\<open>drift\<close>, a sequence of entries with
  \<^verbatim>\<open>field\<close>, \<^verbatim>\<open>expected\<close> and \<^verbatim>\<open>actual\<close>. \<open>field r k\<close> is the value
  under \<open>k\<close>, and \<open>JNull\<close> where there is none.
\<close>

definition field :: "json \<Rightarrow> string \<Rightarrow> json" where
  "field r k = (case py_item r k of Inr v \<Rightarrow> v | Inl e \<Rightarrow> JNull)"

definition has_keys :: "json \<Rightarrow> string list \<Rightarrow> bool" where
  "has_keys r ks = list_all (\<lambda>k. py_item r k = Inr (field r k)) ks"

definition drift_entry :: "json \<Rightarrow> bool" where
  "drift_entry c = has_keys c [''field'', ''expected'', ''actual'']"

definition managed_record :: "json \<Rightarrow> bool" where
  "managed_record r =
     (has_keys r [''service_name'', ''name'', ''id'', ''service_type'', ''status'']
      \<and> (case field r ''drift'' of
            JNull \<Rightarrow> True
          | JArr cs \<Rightarrow> list_all drift_entry cs
          | _ \<Rightarrow> False))"

text \<open>The lines of a managed record, written down from its fields: the title in the
  colour of the status, the type, the status, the block of changes when the drift has
  entries, and an empty line.\<close>

definition title_line :: "pylib \<Rightarrow> json \<Rightarrow> string \<Rightarrow> event" where
  "title_line L r fg =
     Secho (mark_bullet @ '' '' @ py_format L (field r ''service_name'') @ '' - ''
            @ py_format L (field r ''name'') @ '' ('' @ py_format L (field r ''id'') @ '')'')
       fg False"

definition change_line :: "pylib \<Rightarrow> json \<Rightarrow> event" where
  "change_line L c =
     Echo (''    - '' @ py_format L (field c ''field'') @ '': expected ''
           @ py_format L (field c ''expected'') @ '', got '' @ py_format L (field c ''actual''))"

definition changes_block :: "pylib \<Rightarrow> json \<Rightarrow> event list" where
  "changes_block L r =
     (case field r ''drift'' of
        JArr cs \<Rightarrow> (if cs = [] then [] else changes_line # map (change_line L) cs)
      | _ \<Rightarrow> [])"

definition managed_lines :: "pylib \<Rightarrow> json \<Rightarrow> event list" where
  "managed_lines L r =
     [title_line L r (if field r ''status'' = JStr ''synced'' then ''green'' else ''yellow''),
      Echo (''  Type: '' @ py_format L (field r ''service_type'')),
      Echo (''  Status: '' @ py_format L (field r ''status''))]
     @ changes_block L r @ [Echo []]"

text \<open>Reports and records for the concrete runs.\<close>

definition empty_buckets :: json where
  "empty_buckets =
     JObj [(''managed_resources'', JArr []), (''unmanaged_resources'', JArr []),
           (''missing_resources'', JArr [])]"

definition synced_resource :: json where
  "synced_resource =
     JObj [(''service_name'', JStr ''s3''), (''service_type'', JStr ''bucket''),
           (''name'', JStr ''logs''), (''id'', JStr ''b-1''), (''status'', JStr ''synced'')]"

definition drifted_resource :: json where
  "drifted_resource =
     JObj [(''service_name'', JStr ''ec2''), (''service_type'', JStr ''instance''),
           (''name'', JStr ''web''), (''id'', JStr ''i-7''), (''status'', JStr ''drifted''),
           (''drift'', JArr [])]"

definition changed_resource :: json where
  "changed_resource =
     JObj [(''service_name'', JStr ''rds''), (''service_type'', JStr ''database''),
           (''name'', JStr ''main''), (''id'', JStr ''db-2''), (''status'', JStr ''synced''),
           (''drift'', JArr [JObj [(''field'', JStr ''size''), (''expected'', JInt 20),
                                   (''actual'', JInt 10)]])]"

text \<open>A property that every printed line has, whatever its text and style.\<close>

definition printing :: "(event \<Rightarrow> bool) \<Rightarrow> bool" where
  "printing P = ((\<forall>s. P (Echo s)) \<and> (\<forall>s fg b. P (Secho s fg b)))"

text \<open>Whether an outcome is a usage error.\<close>

fun usage :: "py_error \<Rightarrow> bool" where
  "usage (UsageError m) = True"
| "usage _ = False"

definition is_usage_error :: "py_error + 'a \<Rightarrow> bool" where
  "is_usage_error r = (case r of Inl e \<Rightarrow> usage e | Inr x \<Rightarrow> False)"

definition no_usage :: "'a io \<Rightarrow> bool" where
  "no_usage m = (\<not> is_usage_error (snd m))"




definition no_flags :: cli_flags where
  "no_flags =
     \<lparr>opt_project = None, opt_environment = None, opt_api_key = None, opt_api_url = None,
      opt_working_dir = None, opt_dry_run = False, opt_config = None, opt_local = False\<rparr>"


section \<open>Laws of the combinators\<close>

lemma bind_ret [simp]: "bind (ret x) f = f x"
  by (simp add: bind_def ret_def split: prod.splits)

lemma bind_raise [simp]: "bind (raise e) f = raise e"
  by (simp add: bind_def raise_def)

lemma bind_lift_Inr [simp]: "bind (lift (Inr x)) f = f x"
  by (simp add: bind_def lift_def split: prod.splits)

lemma bind_lift_Inl [simp]: "bind (lift (Inl e)) f = raise e"
  by (simp add: bind_def lift_def raise_def)

lemma bind_emit: "bind (emit ev) f = (ev # fst (f ()), snd (f ()))"
  by (simp add: bind_def emit_def split: prod.splits)

lemma fst_bind_emit [simp]: "fst (bind (emit ev) f) = ev # fst (f ())"
  by (simp add: bind_emit)

lemma snd_bind_emit [simp]: "snd (bind (emit ev) f) = snd (f ())"
  by (simp add: bind_emit)

lemma for_each_emit: "for_each emit evs = (evs, Inr ())"
  by (induction evs) (simp_all add: ret_def bind_emit)

lemma bind_Inr: "bind (out, Inr x) f = (out @ fst (f x), snd (f x))"
  by (simp add: bind_def split: prod.splits)

lemma bind_Inl: "bind (out, Inl e) f = (out, Inl e)"
  by (simp add: bind_def)

lemmas io_simps = ret_def raise_def emit_def lift_def bind_Inr bind_Inl

lemma bind_unit_right: "bind m (\<lambda>_. ([], Inr ())) = (m :: unit io)"
proof (cases m)
  case (Pair out r)
  then show ?thesis
    by (cases r) (simp_all add: bind_Inl bind_Inr)
qed

lemma for_each_lines:
  assumes "list_all (\<lambda>x. body x = (lines x, Inr ())) xs"
  shows "for_each body xs = (concat (map lines xs), Inr ())"
  using assms by (induction xs) (simp_all add: io_simps)

subsection \<open>What a computation can emit\<close>

lemma emits_only_ret [simp]: "emits_only P (ret x)"
  by (simp add: emits_only_def ret_def)

lemma emits_only_raise [simp]: "emits_only P (raise e)"
  by (simp add: emits_only_def raise_def)

lemma emits_only_lift [simp]: "emits_only P (lift r)"
  by (simp add: emits_only_def lift_def)

lemma emits_only_emit [simp]: "emits_only P (emit ev) = P ev"
  by (simp add: emits_only_def emit_def)

lemma emits_only_bind:
  assumes "emits_only P m" and "\<And>x. emits_only P (f x)"
  shows "emits_only P (bind m f)"
proof (cases m)
  case (Pair out r)
  show ?thesis
  proof (cases r)
    case (Inl e)
    with Pair assms(1) show ?thesis by (simp add: emits_only_def bind_Inl)
  next
    case (Inr x)
    with Pair assms(1) assms(2) [of x] show ?thesis by (simp add: emits_only_def bind_Inr)
  qed
qed

lemma emits_only_block:
  assumes "\<And>m. m \<in> set ms \<Longrightarrow> emits_only P m"
  shows "emits_only P (block ms)"
  using assms by (induction ms) (simp_all add: emits_only_bind)

lemma emits_only_for_each:
  assumes "\<And>x. emits_only P (body x)"
  shows "emits_only P (for_each body xs)"
  using assms by (induction xs) (simp_all add: emits_only_bind)

lemma emits_only_mono:
  assumes "emits_only P m" and "\<And>ev. P ev \<Longrightarrow> Q ev"
  shows "emits_only Q m"
  using assms unfolding emits_only_def list_all_iff by blast

section \<open>Dry-run mode\<close>

lemma dry_run_result:
  "analyze_terraform L W self project environment show_output True =
     (dry_run_output L (endpoint_url L self project) (request_payload show_output environment),
      Inr (JObj []))"
  by (simp add: analyze_terraform_def for_each_emit bind_def ret_def)

lemma dry_run_no_post: "filter is_http_post (dry_run_output L url payload) = []"
  by (simp add: dry_run_output_def)

lemma empty_report: "print_drift_report L (JObj []) = ([], Inr ())"
  by (simp add: print_drift_report_def ret_def)

text \<open>In live mode the request is the first thing that happens.\<close>

lemma live_mode_posts:
  "take 1 (fst (analyze_terraform L W self project environment show_output False)) =
     [HttpPost (endpoint_url L self project) (request_payload show_output environment)
        (request_headers L self)]"
  by (simp add: analyze_terraform_def Let_def)

text \<open>
  Claim C4. In dry-run mode \<^verbatim>\<open>analyze_terraform\<close> prints the request it would make
  and returns the empty dict, whatever its inputs are; no event of its trace is the HTTP
  POST. \<^verbatim>\<open>print_drift_report({})\<close> prints nothing and returns.
\<close>

theorem dry_run_makes_no_call:
  "analyze_terraform L W self project environment show_output True =
     (dry_run_output L (endpoint_url L self project) (request_payload show_output environment),
      Inr (JObj []))
   \<and> filter is_http_post
        (fst (analyze_terraform L W self project environment show_output True)) = []
   \<and> print_drift_report L (JObj []) = ([], Inr ())"
  by (simp add: dry_run_result dry_run_no_post empty_report)

text \<open>
  Claim C9. In dry-run mode the trace and the result of \<^verbatim>\<open>analyze_terraform\<close> are
  the same for any two keys the client holds, also when the client was built with the
  placeholder of line 295: they are a function of the base URL, the project, the
  environment and the show output, which the third part writes down. That the key never
  appears is read as this independence (a key that happens to be a piece of the fixed
  text, as \<^verbatim>\<open>Bearer\<close> is, stands in the output whatever the key is). The
  authorization line is the constant \<^verbatim>\<open>Authorization: Bearer [REDACTED]\<close>.
\<close>

theorem dry_run_hides_key:
  "analyze_terraform L W (self\<lparr>api_key := k1\<rparr>) project environment show_output True =
     analyze_terraform L W (self\<lparr>api_key := k2\<rparr>) project environment show_output True
   \<and> bind (lift (CasedAPI_init k1 url))
         (\<lambda>api. analyze_terraform L W api project environment show_output True) =
       bind (lift (CasedAPI_init (key_or_placeholder JNull) url))
         (\<lambda>api. analyze_terraform L W api project environment show_output True)
   \<and> analyze_terraform L W (self\<lparr>api_key := k1\<rparr>) project environment show_output True =
       (dry_run_output L
          (base_url self @ ''/api/v1/projects/'' @ py_format L project @ ''/infra/local'')
          (JObj [(''terraform_show_output'', show_output), (''environment'', environment)]),
        Inr (JObj []))
   \<and> dry_run_output L u p ! 3 = Echo ''  Authorization: Bearer [REDACTED]''"
proof (intro conjI)
  show "analyze_terraform L W (self\<lparr>api_key := k1\<rparr>) project environment show_output True =
     analyze_terraform L W (self\<lparr>api_key := k2\<rparr>) project environment show_output True"
    by (simp add: dry_run_result endpoint_url_def)
  show "bind (lift (CasedAPI_init k1 url))
         (\<lambda>api. analyze_terraform L W api project environment show_output True) =
       bind (lift (CasedAPI_init (key_or_placeholder JNull) url))
         (\<lambda>api. analyze_terraform L W api project environment show_output True)"
    by (cases url) (simp_all add: CasedAPI_init_def dry_run_result endpoint_url_def)
  show "analyze_terraform L W (self\<lparr>api_key := k1\<rparr>) project environment show_output True =
       (dry_run_output L
          (base_url self @ ''/api/v1/projects/'' @ py_format L project @ ''/infra/local'')
          (JObj [(''terraform_show_output'', show_output), (''environment'', environment)]),
        Inr (JObj []))"
    by (simp add: dry_run_result endpoint_url_def request_payload_def)
  show "dry_run_output L u p ! 3 = Echo ''  Authorization: Bearer [REDACTED]''"
    by (simp add: dry_run_output_def)
qed

section \<open>The report printer: the empty cases\<close>

lemma all_empty:
  assumes "map_of kvs ''managed_resources'' = Some (JArr [])"
    and "map_of kvs ''unmanaged_resources'' = Some (JArr [])"
    and "map_of kvs ''missing_resources'' = Some (JArr [])"
  shows "all_resources (JObj kvs) = Inr (JArr [])"
  using assms by (simp add: all_resources_def bind_err_def)

text \<open>
  Claim C2, as the code has it. A report whose three buckets are present and empty is
  not the empty dict, so the heading of the report is printed first (line 146) and the
  success line after it; nothing else is printed.
\<close>

theorem empty_buckets_print_heading_and_success:
  assumes "map_of kvs ''managed_resources'' = Some (JArr [])"
    and "map_of kvs ''unmanaged_resources'' = Some (JArr [])"
    and "map_of kvs ''missing_resources'' = Some (JArr [])"
  shows "print_drift_report L (JObj kvs) = ([report_heading, success_line], Inr ())"
proof -
  have "kvs \<noteq> []"
    using assms(1) by auto
  then show ?thesis
    by (simp add: print_drift_report_def all_empty [OF assms] io_simps)
qed

theorem empty_buckets_print_heading_and_success_witness:
  "map_of [(''managed_resources'', JArr []), (''unmanaged_resources'', JArr []),
           (''missing_resources'', JArr [])] ''missing_resources'' = Some (JArr [])
   \<and> print_drift_report sample_lib empty_buckets = ([report_heading, success_line], Inr ())"
  using empty_buckets_print_heading_and_success
    [of "[(''managed_resources'', JArr []), (''unmanaged_resources'', JArr []),
          (''missing_resources'', JArr [])]" sample_lib]
  by (simp add: empty_buckets_def)

text \<open>
  The claim as the specification words it, one success line and nothing else, fails on
  the report with three empty buckets: the output has two lines.
\<close>

theorem empty_buckets_not_one_line:
  "fst (print_drift_report sample_lib empty_buckets) = [report_heading, success_line]
   \<and> fst (print_drift_report sample_lib empty_buckets) \<noteq> [success_line]"
  by (simp add: empty_buckets_def print_drift_report_def all_resources_def bind_err_def
      io_simps)

section \<open>The report printer: absent buckets\<close>

lemma print_change_plain: "emits_only (\<lambda>ev. \<not> is_bold ev) (print_change L c)"
  by (simp add: print_change_def emits_only_bind)

lemma managed_resource_plain: "emits_only (\<lambda>ev. \<not> is_bold ev) (print_managed_resource L r)"
  unfolding print_managed_resource_def
  by (intro emits_only_bind emits_only_block emits_only_lift)
     (auto simp: changes_line_def intro!: emits_only_bind emits_only_for_each print_change_plain)

lemma plain_resource_plain: "emits_only (\<lambda>ev. \<not> is_bold ev) (print_plain_resource L fg r)"
  unfolding print_plain_resource_def
  by (intro emits_only_block) (auto intro!: emits_only_bind)

lemma print_bucket_events:
  assumes "P heading" and "\<And>x. emits_only P (body x)"
  shows "emits_only P (print_bucket report key heading body)"
  unfolding print_bucket_def
  by (intro emits_only_bind emits_only_lift)
     (auto simp: assms intro!: emits_only_block emits_only_bind emits_only_for_each)

lemma print_bucket_absent:
  assumes "py_get report key (JArr []) = Inr (JArr [])"
  shows "print_bucket report key heading body = ret ()"
  by (simp add: print_bucket_def assms)

lemma py_get_append_absent:
  assumes "map_of kvs key = None"
  shows "py_get (JObj (kvs @ [(key, JArr [])])) k (JArr []) = py_get (JObj kvs) k (JArr [])"
  using assms by (cases "map_of kvs k") (auto simp: map_add_def)

lemma absent_as_empty:
  assumes "kvs \<noteq> []" and "map_of kvs key = None"
  shows "print_drift_report L (JObj kvs) = print_drift_report L (JObj (kvs @ [(key, JArr [])]))"
  using assms(1)
  by (simp add: print_drift_report_def all_resources_def print_bucket_def
      py_get_append_absent [OF assms(2)] del: py_get.simps cong: if_cong)

lemma no_buckets:
  assumes "kvs \<noteq> []" and "list_all (\<lambda>k. map_of kvs k = None) bucket_keys"
  shows "print_drift_report L (JObj kvs) = ([report_heading, success_line], Inr ())"
  using assms
  by (simp add: print_drift_report_def all_resources_def bucket_keys_def bind_err_def io_simps)

lemma headings_differ:
  "managed_heading \<noteq> unmanaged_heading" "managed_heading \<noteq> missing_heading"
  "unmanaged_heading \<noteq> missing_heading" "report_heading \<noteq> managed_heading"
  "report_heading \<noteq> unmanaged_heading" "report_heading \<noteq> missing_heading"
  "success_line \<noteq> managed_heading" "success_line \<noteq> unmanaged_heading"
  "success_line \<noteq> missing_heading"
  by (simp_all add: managed_heading_def unmanaged_heading_def missing_heading_def
      report_heading_def success_line_def)

lemma headings_bold:
  "is_bold managed_heading" "is_bold unmanaged_heading" "is_bold missing_heading"
  by (simp_all add: managed_heading_def unmanaged_heading_def missing_heading_def)

lemma managed_resource_not: "is_bold h \<Longrightarrow> emits_only (\<lambda>ev. ev \<noteq> h) (print_managed_resource L r)"
  by (rule emits_only_mono [OF managed_resource_plain]) auto

lemma plain_resource_not: "is_bold h \<Longrightarrow> emits_only (\<lambda>ev. ev \<noteq> h) (print_plain_resource L fg r)"
  by (rule emits_only_mono [OF plain_resource_plain]) auto

lemma report_events:
  assumes "report_heading \<noteq> h" and "success_line \<noteq> h"
    and "emits_only (\<lambda>ev. ev \<noteq> h)
           (print_bucket report ''managed_resources'' managed_heading (print_managed_resource L))"
    and "emits_only (\<lambda>ev. ev \<noteq> h)
           (print_bucket report ''unmanaged_resources'' unmanaged_heading
              (print_plain_resource L ''yellow''))"
    and "emits_only (\<lambda>ev. ev \<noteq> h)
           (print_bucket report ''missing_resources'' missing_heading
              (print_plain_resource L ''red''))"
  shows "emits_only (\<lambda>ev. ev \<noteq> h) (print_drift_report L report)"
  unfolding print_drift_report_def using assms
  by (auto intro!: emits_only_block emits_only_bind)

lemma absent_no_managed_heading:
  assumes "map_of kvs ''managed_resources'' = None"
  shows "managed_heading \<notin> set (fst (print_drift_report L (JObj kvs)))"
proof -
  have "emits_only (\<lambda>ev. ev \<noteq> managed_heading) (print_drift_report L (JObj kvs))"
    by (rule report_events)
       (auto simp: headings_differ headings_differ [symmetric] headings_bold
          print_bucket_absent assms
          intro!: print_bucket_events plain_resource_not managed_resource_not)
  then show ?thesis
    by (auto simp: emits_only_def list_all_iff)
qed

lemma absent_no_unmanaged_heading:
  assumes "map_of kvs ''unmanaged_resources'' = None"
  shows "unmanaged_heading \<notin> set (fst (print_drift_report L (JObj kvs)))"
proof -
  have "emits_only (\<lambda>ev. ev \<noteq> unmanaged_heading) (print_drift_report L (JObj kvs))"
    by (rule report_events)
       (auto simp: headings_differ headings_differ [symmetric] headings_bold
          print_bucket_absent assms
          intro!: print_bucket_events plain_resource_not managed_resource_not)
  then show ?thesis
    by (auto simp: emits_only_def list_all_iff)
qed

lemma absent_no_missing_heading:
  assumes "map_of kvs ''missing_resources'' = None"
  shows "missing_heading \<notin> set (fst (print_drift_report L (JObj kvs)))"
proof -
  have "emits_only (\<lambda>ev. ev \<noteq> missing_heading) (print_drift_report L (JObj kvs))"
    by (rule report_events)
       (auto simp: headings_differ headings_differ [symmetric] headings_bold
          print_bucket_absent assms
          intro!: print_bucket_events plain_resource_not managed_resource_not)
  then show ?thesis
    by (auto simp: emits_only_def list_all_iff)
qed

text \<open>
  Claim C10. In a report that is not empty, a bucket key that is absent is read as the
  empty sequence: the printer does on the report what it does on the report with the key
  bound to the empty list. With none of the three keys the output is the heading of the
  report and the success line. The heading of an absent bucket is no line of the output.
\<close>

theorem absent_bucket_counts_as_empty:
  assumes "kvs \<noteq> []"
  shows "(key \<in> set bucket_keys \<and> map_of kvs key = None \<longrightarrow>
            print_drift_report L (JObj kvs) = print_drift_report L (JObj (kvs @ [(key, JArr [])])))
       \<and> (list_all (\<lambda>k. map_of kvs k = None) bucket_keys \<longrightarrow>
            print_drift_report L (JObj kvs) = ([report_heading, success_line], Inr ()))
       \<and> (map_of kvs ''managed_resources'' = None \<longrightarrow>
            managed_heading \<notin> set (fst (print_drift_report L (JObj kvs))))
       \<and> (map_of kvs ''unmanaged_resources'' = None \<longrightarrow>
            unmanaged_heading \<notin> set (fst (print_drift_report L (JObj kvs))))
       \<and> (map_of kvs ''missing_resources'' = None \<longrightarrow>
            missing_heading \<notin> set (fst (print_drift_report L (JObj kvs))))"
proof (intro conjI impI)
  assume "key \<in> set bucket_keys \<and> map_of kvs key = None"
  then show "print_drift_report L (JObj kvs) = print_drift_report L (JObj (kvs @ [(key, JArr [])]))"
    using assms by (simp add: absent_as_empty)
next
  assume "list_all (\<lambda>k. map_of kvs k = None) bucket_keys"
  then show "print_drift_report L (JObj kvs) = ([report_heading, success_line], Inr ())"
    using assms by (rule no_buckets [rotated])
next
  assume "map_of kvs ''managed_resources'' = None"
  then show "managed_heading \<notin> set (fst (print_drift_report L (JObj kvs)))"
    by (rule absent_no_managed_heading)
next
  assume "map_of kvs ''unmanaged_resources'' = None"
  then show "unmanaged_heading \<notin> set (fst (print_drift_report L (JObj kvs)))"
    by (rule absent_no_unmanaged_heading)
next
  assume "map_of kvs ''missing_resources'' = None"
  then show "missing_heading \<notin> set (fst (print_drift_report L (JObj kvs)))"
    by (rule absent_no_missing_heading)
qed

theorem absent_bucket_counts_as_empty_witness:
  "print_drift_report sample_lib (JObj [(''request_id'', JStr ''r-1'')]) =
     ([report_heading, success_line], Inr ())
   \<and> print_drift_report sample_lib (JObj [(''managed_resources'', JArr [changed_resource])]) =
       print_drift_report sample_lib
         (JObj [(''managed_resources'', JArr [changed_resource]), (''missing_resources'', JArr [])])
   \<and> missing_heading \<notin> set (fst (print_drift_report sample_lib
        (JObj [(''managed_resources'', JArr [changed_resource])])))"
proof -
  have none: "list_all (\<lambda>k. map_of [(''request_id'', JStr ''r-1'')] k = None) bucket_keys"
    by (simp add: bucket_keys_def)
  have missing: "''missing_resources'' \<in> set bucket_keys
      \<and> map_of [(''managed_resources'', JArr [changed_resource])] ''missing_resources'' = None"
    by (simp add: bucket_keys_def)
  have "[(''request_id'', JStr ''r-1'')] \<noteq> []"
    and "[(''managed_resources'', JArr [changed_resource])] \<noteq> []"
    by simp_all
  then show ?thesis
    using none missing
      absent_bucket_counts_as_empty
        [of "[(''request_id'', JStr ''r-1'')]" "''managed_resources''" sample_lib]
      absent_bucket_counts_as_empty
        [of "[(''managed_resources'', JArr [changed_resource])]" "''missing_resources''"
          sample_lib]
    by (simp only: append.simps) blast
qed

section \<open>The report printer: managed resources\<close>

lemma py_get_field:
  "py_get r k JNull = (case r of JObj kvs \<Rightarrow> Inr (field r k) | _ \<Rightarrow> Inl AttributeError)"
  by (cases r) (auto simp: field_def split: option.splits)

lemma has_keys_obj: "has_keys r (k # ks) \<Longrightarrow> \<exists>kvs. r = JObj kvs"
  by (cases r) (auto simp: has_keys_def field_def)

lemma title_ok:
  assumes "has_keys r [''service_name'', ''name'', ''id'', ''service_type'', ''status'']"
  shows "resource_title L r =
           Inr (mark_bullet @ '' '' @ py_format L (field r ''service_name'') @ '' - ''
                @ py_format L (field r ''name'') @ '' ('' @ py_format L (field r ''id'') @ '')'')"
  using assms by (simp add: resource_title_def bind_err_def has_keys_def)

lemma print_change_ok:
  assumes "drift_entry c"
  shows "print_change L c = ([change_line L c], Inr ())"
  using assms
  by (simp add: print_change_def change_text_def change_line_def drift_entry_def has_keys_def
      bind_err_def io_simps)

lemma drift_item:
  assumes "field r ''drift'' = JArr cs" and "cs \<noteq> []"
  shows "py_item r ''drift'' = Inr (JArr cs)"
  using assms by (cases r) (auto simp: field_def split: option.splits sum.splits)

text \<open>On a record of the expected shape the loop body prints the lines written down in
  \<open>managed_lines\<close>, and raises nothing.\<close>

lemma managed_resource_ok:
  assumes "managed_record r"
  shows "print_managed_resource L r = (managed_lines L r, Inr ())"
proof -
  have keys: "has_keys r [''service_name'', ''name'', ''id'', ''service_type'', ''status'']"
    using assms by (simp add: managed_record_def)
  then obtain kvs where r: "r = JObj kvs"
    using has_keys_obj by blast
  have items: "py_item r ''status'' = Inr (field r ''status'')"
    "py_item r ''service_type'' = Inr (field r ''service_type'')"
    using keys by (simp_all add: has_keys_def)
  have get: "py_get r ''drift'' JNull = Inr (field r ''drift'')"
    by (simp add: py_get_field r)
  show ?thesis
  proof (cases "field r ''drift''")
    case JNull
    then show ?thesis
      by (simp add: print_managed_resource_def items get title_ok [OF keys] managed_lines_def
          changes_block_def title_line_def io_simps)
  next
    case (JArr cs)
    then have entries: "list_all drift_entry cs"
      using assms by (simp add: managed_record_def)
    show ?thesis
    proof (cases "cs = []")
      case True
      with JArr show ?thesis
        by (simp add: print_managed_resource_def items get title_ok [OF keys] managed_lines_def
            changes_block_def title_line_def io_simps)
    next
      case False
      have "list_all (\<lambda>c. print_change L c = ([change_line L c], Inr ())) cs"
        using entries by (simp add: list_all_iff print_change_ok)
      then have loop: "for_each (print_change L) cs = (map (change_line L) cs, Inr ())"
        using for_each_lines [of "print_change L" "\<lambda>c. [change_line L c]" cs]
        by (simp add: concat_map_singleton)
      from False JArr show ?thesis
        by (simp add: print_managed_resource_def items get title_ok [OF keys] managed_lines_def
            changes_block_def title_line_def io_simps drift_item [OF JArr False] loop)
    qed
  qed (use assms in \<open>simp_all add: managed_record_def\<close>)
qed

lemma all_resources_lists:
  assumes "py_get report ''managed_resources'' (JArr []) = Inr (JArr rs)"
    and "py_get report ''unmanaged_resources'' (JArr []) = Inr (JArr us)"
    and "py_get report ''missing_resources'' (JArr []) = Inr (JArr ms)"
  shows "all_resources report = Inr (JArr (rs @ us @ ms))"
  by (simp add: all_resources_def assms bind_err_def)

lemma managed_bucket_ok:
  assumes "py_get report ''managed_resources'' (JArr []) = Inr (JArr rs)"
    and "rs \<noteq> []" and "list_all managed_record rs"
  shows "print_bucket report ''managed_resources'' managed_heading (print_managed_resource L) =
           (managed_heading # concat (map (managed_lines L) rs), Inr ())"
proof -
  have "for_each (print_managed_resource L) rs = (concat (map (managed_lines L) rs), Inr ())"
    by (rule for_each_lines) (use assms(3) in \<open>simp add: list_all_iff managed_resource_ok\<close>)
  then show ?thesis
    using assms(2) by (simp add: print_bucket_def assms(1) io_simps)
qed

lemma report_starts_with_managed:
  assumes m: "py_get report ''managed_resources'' (JArr []) = Inr (JArr rs)"
    and u: "py_get report ''unmanaged_resources'' (JArr []) = Inr (JArr us)"
    and mi: "py_get report ''missing_resources'' (JArr []) = Inr (JArr ms)"
    and rs: "rs \<noteq> []" and ok: "list_all managed_record rs"
  shows "prefix (report_heading # managed_heading # concat (map (managed_lines L) rs))
           (fst (print_drift_report L report))"
proof -
  obtain kvs where report: "report = JObj kvs"
    using m by (cases report) auto
  have "kvs \<noteq> []"
    using m rs by (auto simp: report)
  then have t: "truthy report"
    by (simp add: report)
  have "fst (print_drift_report L report) =
      report_heading # managed_heading # concat (map (managed_lines L) rs)
      @ fst (block [print_bucket report ''unmanaged_resources'' unmanaged_heading
                      (print_plain_resource L ''yellow''),
                    print_bucket report ''missing_resources'' missing_heading
                      (print_plain_resource L ''red'')])"
    using t rs
    by (simp add: print_drift_report_def all_resources_lists [OF m u mi]
        managed_bucket_ok [OF m rs ok] io_simps bind_unit_right)
  then show ?thesis
    by simp
qed

lemma changes_line_member: "changes_line \<in> set (managed_lines L r) \<longleftrightarrow> changes_block L r \<noteq> []"
  by (auto simp: managed_lines_def title_line_def changes_line_def changes_block_def
      change_line_def mark_bullet_def split: json.splits)

lemma changes_block_truthy:
  assumes "managed_record r"
  shows "changes_block L r \<noteq> [] \<longleftrightarrow> truthy (field r ''drift'')"
  using assms by (auto simp: changes_block_def managed_record_def split: json.splits)

text \<open>
  Claim C3, as the code has it. Take a report whose three buckets are sequences (or
  absent) and whose managed records have the expected shape. The output starts with the
  heading of the report, the heading of the managed bucket and the lines of each managed
  record in turn. For a record \<open>r\<close> of the bucket, the \<^verbatim>\<open>Changes:\<close> line is among its
  lines if and only if its drift is a sequence with an entry (line 170 tests the drift
  alone); it is then followed by one line per entry with the field, the expected and the
  actual value. The status chooses the colour of the title and nothing else. A synced
  record without entries gives four lines: the title with the name and the id, the type,
  the status and an empty line.
\<close>

theorem changes_block_follows_drift:
  assumes "py_get report ''managed_resources'' (JArr []) = Inr (JArr rs)"
    and "py_get report ''unmanaged_resources'' (JArr []) = Inr (JArr us)"
    and "py_get report ''missing_resources'' (JArr []) = Inr (JArr ms)"
    and "list_all managed_record rs" and "r \<in> set rs"
  shows "prefix (report_heading # managed_heading # concat (map (managed_lines L) rs))
           (fst (print_drift_report L report))
       \<and> print_managed_resource L r = (managed_lines L r, Inr ())
       \<and> (changes_line \<in> set (managed_lines L r) \<longleftrightarrow> truthy (field r ''drift''))
       \<and> (truthy (field r ''drift'') \<longrightarrow>
            (case field r ''drift'' of
               JArr cs \<Rightarrow> changes_block L r = changes_line # map (change_line L) cs
             | _ \<Rightarrow> False))
       \<and> (field r ''status'' = JStr ''synced'' \<and> \<not> truthy (field r ''drift'') \<longrightarrow>
            managed_lines L r =
              [title_line L r ''green'',
               Echo (''  Type: '' @ py_format L (field r ''service_type'')),
               Echo ''  Status: synced'',
               Echo []])"
proof -
  have rs: "rs \<noteq> []"
    using assms(5) by auto
  have r: "managed_record r"
    using assms(4,5) by (simp add: list_all_iff)
  have 1: "prefix (report_heading # managed_heading # concat (map (managed_lines L) rs))
           (fst (print_drift_report L report))"
    by (rule report_starts_with_managed [OF assms(1-3) rs assms(4)])
  have 2: "print_managed_resource L r = (managed_lines L r, Inr ())"
    by (rule managed_resource_ok [OF r])
  have 3: "changes_line \<in> set (managed_lines L r) \<longleftrightarrow> truthy (field r ''drift'')"
    by (simp add: changes_line_member changes_block_truthy [OF r])
  have 4: "truthy (field r ''drift'') \<longrightarrow>
            (case field r ''drift'' of
               JArr cs \<Rightarrow> changes_block L r = changes_line # map (change_line L) cs
             | _ \<Rightarrow> False)"
    using r by (auto simp: changes_block_def managed_record_def split: json.splits)
  have 5: "field r ''status'' = JStr ''synced'' \<and> \<not> truthy (field r ''drift'') \<longrightarrow>
            managed_lines L r =
              [title_line L r ''green'',
               Echo (''  Type: '' @ py_format L (field r ''service_type'')),
               Echo ''  Status: synced'',
               Echo []]"
    using r by (auto simp: managed_lines_def changes_block_def managed_record_def py_format_def
        split: json.splits)
  from 1 2 3 4 5 show ?thesis
    by blast
qed

theorem changes_block_follows_drift_witness:
  "fst (print_drift_report sample_lib
          (JObj [(''managed_resources'', JArr [synced_resource, changed_resource])])) =
     [report_heading, managed_heading,
      title_line sample_lib synced_resource ''green'',
      Echo ''  Type: bucket'', Echo ''  Status: synced'', Echo [],
      title_line sample_lib changed_resource ''green'',
      Echo ''  Type: database'', Echo ''  Status: synced'', changes_line,
      Echo ''    - size: expected 20, got 10'', Echo []]
   \<and> changes_line \<in> set (managed_lines sample_lib changed_resource)
   \<and> changes_line \<notin> set (managed_lines sample_lib synced_resource)"
proof -
  let ?report = "JObj [(''managed_resources'', JArr [synced_resource, changed_resource])]"
  have rec: "list_all managed_record [synced_resource, changed_resource]"
    by (simp add: managed_record_def has_keys_def field_def drift_entry_def
        synced_resource_def changed_resource_def)
  have lines: "managed_lines sample_lib synced_resource =
      [title_line sample_lib synced_resource ''green'',
       Echo ''  Type: bucket'', Echo ''  Status: synced'', Echo []]"
    "managed_lines sample_lib changed_resource =
      [title_line sample_lib changed_resource ''green'',
       Echo ''  Type: database'', Echo ''  Status: synced'', changes_line,
       Echo ''    - size: expected 20, got 10'', Echo []]"
    by (simp_all add: managed_lines_def changes_block_def change_line_def field_def
        py_format_def sample_lib_def synced_resource_def changed_resource_def)
  have out: "fst (print_drift_report sample_lib ?report) =
      report_heading # managed_heading
      # concat (map (managed_lines sample_lib) [synced_resource, changed_resource])"
    by (simp add: print_drift_report_def all_resources_def bind_err_def print_bucket_def
        managed_resource_ok rec [simplified] io_simps)
  have a: "changes_line \<in> set (managed_lines sample_lib changed_resource)
      \<longleftrightarrow> truthy (field changed_resource ''drift'')"
    and b: "changes_line \<in> set (managed_lines sample_lib synced_resource)
      \<longleftrightarrow> truthy (field synced_resource ''drift'')"
    using changes_block_follows_drift [of ?report "[synced_resource, changed_resource]" "[]" "[]"
        changed_resource sample_lib]
      changes_block_follows_drift [of ?report "[synced_resource, changed_resource]" "[]" "[]"
        synced_resource sample_lib] rec
    by simp_all
  have "truthy (field changed_resource ''drift'')" "\<not> truthy (field synced_resource ''drift'')"
    by (simp_all add: field_def changed_resource_def synced_resource_def)
  with a b out lines show ?thesis
    by simp
qed

text \<open>
  The claim as the specification words it asks for a \<^verbatim>\<open>Changes:\<close> block whenever the
  status is not \<^verbatim>\<open>synced\<close>. A record with the status \<^verbatim>\<open>drifted\<close> and an empty
  drift is printed without one.
\<close>

theorem drifted_without_entries_has_no_changes:
  "field drifted_resource ''status'' \<noteq> JStr ''synced''
   \<and> changes_line \<notin> set (fst (print_drift_report sample_lib
        (JObj [(''managed_resources'', JArr [drifted_resource])])))"
  by (simp add: drifted_resource_def field_def print_drift_report_def all_resources_def
      bind_err_def print_bucket_def print_managed_resource_def resource_title_def io_simps
      report_heading_def managed_heading_def changes_line_def py_format_def)

section \<open>The state collector: validation\<close>

lemma validate_without_sources:
  assumes "listdir W d = Inr names" and "filter (suffix ''.tf'') names = []"
  shows "validate_terraform_directory W d = Inl (UsageError (no_tf_files_message d))"
  using assms by (simp add: validate_terraform_directory_def bind_err_def)

lemma validate_without_init:
  assumes "listdir W d = Inr names" and "filter (suffix ''.tf'') names \<noteq> []"
    and "\<not> path_exists W (path_join d ''.terraform'')"
  shows "validate_terraform_directory W d = Inl (UsageError not_initialized_message)"
  using assms by (simp add: validate_terraform_directory_def bind_err_def)

lemma names_init_step: "sublist ''terraform init'' not_initialized_message"
  unfolding not_initialized_message_def by code_simp

text \<open>
  Claim C8. Let \<open>names\<close> be the entries of the directory \<open>d\<close>. If none of them ends in
  \<^verbatim>\<open>.tf\<close>, validation fails with the usage error that no \<^verbatim>\<open>.tf\<close> files were
  found, whatever else the world holds (the \<^verbatim>\<open>.terraform\<close> entry included). If one
  does and \<^verbatim>\<open>.terraform\<close> under \<open>d\<close> does not exist, it fails with the usage error
  whose message names \<^verbatim>\<open>terraform init\<close>.
\<close>

theorem validate_rejects:
  "(listdir W d = Inr names \<and> list_all (\<lambda>n. \<not> suffix ''.tf'' n) names
      \<longrightarrow> validate_terraform_directory W d = Inl (UsageError (no_tf_files_message d)))
   \<and> (listdir W d = Inr names \<and> list_ex (suffix ''.tf'') names
        \<and> \<not> path_exists W (path_join d ''.terraform'')
      \<longrightarrow> validate_terraform_directory W d = Inl (UsageError not_initialized_message)
          \<and> sublist ''terraform init'' not_initialized_message)"
proof (intro conjI impI)
  assume a: "listdir W d = Inr names \<and> list_all (\<lambda>n. \<not> suffix ''.tf'' n) names"
  then have "filter (suffix ''.tf'') names = []"
    by (simp add: list_all_iff filter_empty_conv)
  with a show "validate_terraform_directory W d = Inl (UsageError (no_tf_files_message d))"
    by (simp add: validate_without_sources)
next
  assume a: "listdir W d = Inr names \<and> list_ex (suffix ''.tf'') names
        \<and> \<not> path_exists W (path_join d ''.terraform'')"
  then have "filter (suffix ''.tf'') names \<noteq> []"
    by (simp add: list_ex_iff filter_empty_conv)
  with a show "validate_terraform_directory W d = Inl (UsageError not_initialized_message)"
    by (simp add: validate_without_init)
next
  show "sublist ''terraform init'' not_initialized_message"
    by (rule names_init_step)
qed

theorem validate_rejects_witness:
  "listdir sample_world ''/empty'' = Inr [''README.md'']
   \<and> validate_terraform_directory sample_world ''/empty'' =
       Inl (UsageError (no_tf_files_message ''/empty''))
   \<and> listdir sample_world ''/fresh'' = Inr [''main.tf'']
   \<and> validate_terraform_directory sample_world ''/fresh'' =
       Inl (UsageError not_initialized_message)"
proof -
  have e: "listdir sample_world ''/empty'' = Inr [''README.md'']
      \<and> list_all (\<lambda>n. \<not> suffix ''.tf'' n) [''README.md'']"
    by (simp add: sample_world_def suffix_to_prefix)
  have f: "listdir sample_world ''/fresh'' = Inr [''main.tf'']
      \<and> list_ex (suffix ''.tf'') [''main.tf'']
      \<and> \<not> path_exists sample_world (path_join ''/fresh'' ''.terraform'')"
    by (simp add: sample_world_def suffix_to_prefix path_join_def)
  show ?thesis
    using validate_rejects [of sample_world "''/empty''" "[''README.md'']"]
      validate_rejects [of sample_world "''/fresh''" "[''main.tf'']"] e f
    by blast
qed

section \<open>The configuration loader: the search\<close>

lemma first_existing_find: "first_existing W locs = List.find (path_exists W) locs"
  by (induction locs) simp_all

lemma load_config_explicit:
  assumes "p \<noteq> []"
  shows "load_config L W (Some p) =
           (if path_exists W p then parse_config L W p
            else ([Echo ''No config file found''], Inr (JObj [])))"
  using assms by (simp add: load_config_def nonempty_def io_simps)

lemma load_config_default:
  assumes "no = None \<or> no = Some []"
  shows "load_config L W no =
           (case List.find (path_exists W) (default_locations W) of
              None \<Rightarrow> ([Echo ''No config file found''], Inr (JObj []))
            | Some loc \<Rightarrow>
                bind (emit (Echo (''Found config file: '' @ loc))) (\<lambda>_. parse_config L W loc))"
proof -
  have given: "nonempty no = None"
    using assms by (auto simp: nonempty_def)
  show ?thesis
  proof (cases "List.find (path_exists W) (default_locations W)")
    case None
    then show ?thesis
      by (simp add: load_config_def given first_existing_find io_simps)
  next
    case (Some loc)
    then have "path_exists W loc"
      by (auto simp: find_Some_iff)
    with Some show ?thesis
      by (simp add: load_config_def given first_existing_find)
  qed
qed

lemma find_none: "list_all (\<lambda>x. \<not> P x) xs \<Longrightarrow> List.find P xs = None"
  by (simp add: find_None_iff list_all_iff)

lemma parse_config_fails:
  assumes "bind_err (read_text W p) (yaml_safe_load L) = Inl e"
  shows "parse_config L W p = ([], Inl (UsageError (''Failed to load config file: '' @ str_exn L e)))"
  by (simp add: parse_config_def assms raise_def)

lemma parse_config_loads:
  assumes "bind_err (read_text W p) (yaml_safe_load L) = Inr doc"
  shows "parse_config L W p =
           ([Echo (''Loaded config: '' @ json_dumps L (if truthy doc then doc else JObj []))],
            Inr (if truthy doc then doc else JObj []))"
  by (simp add: parse_config_def assms io_simps Let_def)

text \<open>
  Claim C6, as the code has it. A path that is passed (and is not the empty string) is
  the only candidate: the file is parsed if it exists, and otherwise the configuration
  is empty, without an error and without a look at the default locations. Without a
  path the three default locations are tried in the order of the list, and the first
  that exists is announced and parsed; if none exists the configuration is empty,
  without an error. Parsing fails with a usage error when the file cannot be read or is
  not YAML, and otherwise gives the document, or the empty dict for a falsy document.
\<close>

theorem load_config_search:
  "(p \<noteq> [] \<longrightarrow>
      load_config L W (Some p) =
        (if path_exists W p then parse_config L W p
         else ([Echo ''No config file found''], Inr (JObj []))))
   \<and> default_locations W =
       [expanduser W ''~/.config/cased/config.yml'', expanduser W ''~/.cased/config.yml'',
        ''.cased.yml'']
   \<and> (no = None \<or> no = Some [] \<longrightarrow>
        load_config L W no =
          (case List.find (path_exists W) (default_locations W) of
             None \<Rightarrow> ([Echo ''No config file found''], Inr (JObj []))
           | Some loc \<Rightarrow>
               bind (emit (Echo (''Found config file: '' @ loc))) (\<lambda>_. parse_config L W loc)))
   \<and> (list_all (\<lambda>loc. \<not> path_exists W loc) (default_locations W) \<longrightarrow>
        load_config L W None = ([Echo ''No config file found''], Inr (JObj [])))
   \<and> (bind_err (read_text W p) (yaml_safe_load L) = Inl e \<longrightarrow>
        parse_config L W p =
          ([], Inl (UsageError (''Failed to load config file: '' @ str_exn L e))))
   \<and> (bind_err (read_text W p) (yaml_safe_load L) = Inr doc \<longrightarrow>
        parse_config L W p =
          ([Echo (''Loaded config: '' @ json_dumps L (if truthy doc then doc else JObj []))],
           Inr (if truthy doc then doc else JObj [])))"
proof (intro conjI impI)
  show "default_locations W =
       [expanduser W ''~/.config/cased/config.yml'', expanduser W ''~/.cased/config.yml'',
        ''.cased.yml'']"
    by (simp add: default_locations_def)
next
  assume "list_all (\<lambda>loc. \<not> path_exists W loc) (default_locations W)"
  then have "List.find (path_exists W) (default_locations W) = None"
    by (rule find_none)
  then show "load_config L W None = ([Echo ''No config file found''], Inr (JObj []))"
    by (simp add: load_config_default)
qed (simp_all add: load_config_explicit load_config_default parse_config_fails parse_config_loads)

theorem load_config_search_witness:
  "load_config sample_lib sample_world None =
     ([Echo ''Found config file: /home/u/.cased/config.yml'',
       Echo (''Loaded config: '' @ render sample_config)], Inr sample_config)
   \<and> load_config sample_lib sample_world (Some ''/etc/broken.yml'') =
     ([], Inl (UsageError ''Failed to load config file: mapping values are not allowed here''))"
proof -
  have find: "List.find (path_exists sample_world) (default_locations sample_world) =
      Some ''/home/u/.cased/config.yml''"
    by (simp add: sample_world_def default_locations_def)
  have ok: "bind_err (read_text sample_world ''/home/u/.cased/config.yml'')
      (yaml_safe_load sample_lib) = Inr sample_config"
    by (simp add: sample_world_def sample_lib_def bind_err_def)
  have bad: "bind_err (read_text sample_world ''/etc/broken.yml'') (yaml_safe_load sample_lib) =
      Inl (YAMLError ''mapping values are not allowed here'')"
    by (simp add: sample_world_def sample_lib_def bind_err_def nl_def)
  have ex: "path_exists sample_world ''/etc/broken.yml''"
    by (simp add: sample_world_def)
  have t: "truthy sample_config"
    by (simp add: sample_config_def)
  have "load_config sample_lib sample_world None =
     ([Echo ''Found config file: /home/u/.cased/config.yml'',
       Echo (''Loaded config: '' @ render sample_config)], Inr sample_config)"
    using load_config_search [where L = sample_lib and W = sample_world and no = None
        and p = "''/home/u/.cased/config.yml''" and doc = sample_config] find ok t
    by (simp add: io_simps sample_lib_def)
  moreover have "load_config sample_lib sample_world (Some ''/etc/broken.yml'') =
     ([], Inl (UsageError ''Failed to load config file: mapping values are not allowed here''))"
    using load_config_search [where L = sample_lib and W = sample_world
        and p = "''/etc/broken.yml''" and e = "YAMLError ''mapping values are not allowed here''"]
      bad ex
    by (simp add: str_exn_def)
  ultimately show ?thesis
    by simp
qed


text \<open>
  The claim as the specification words it has the default locations searched after an
  explicit path that does not exist. Here the explicit path is missing, the second
  default location exists, and the configuration comes back empty.
\<close>

theorem missing_explicit_path_skips_defaults:
  "\<not> path_exists sample_world ''/nope.yml''
   \<and> List.find (path_exists sample_world) (''/nope.yml'' # default_locations sample_world) =
       Some ''/home/u/.cased/config.yml''
   \<and> load_config sample_lib sample_world (Some ''/nope.yml'') =
       ([Echo ''No config file found''], Inr (JObj []))"
  by (simp add: sample_world_def default_locations_def load_config_def nonempty_def io_simps)

section \<open>The state collector: the show output\<close>

subsection \<open>The summary raises no usage error\<close>

lemma is_usage_error_simps [simp]:
  "is_usage_error (Inl e) = usage e" "is_usage_error (Inr x) = False"
  by (simp_all add: is_usage_error_def)

lemma no_usage_ret [simp]: "no_usage (ret x)"
  by (simp add: no_usage_def ret_def)

lemma no_usage_emit [simp]: "no_usage (emit ev)"
  by (simp add: no_usage_def emit_def)

lemma no_usage_lift [simp]: "no_usage (lift r) = (\<not> is_usage_error r)"
  by (simp add: no_usage_def lift_def)

lemma no_usage_raise [simp]: "no_usage (raise e) = (\<not> usage e)"
  by (simp add: no_usage_def raise_def)






lemma py_get_no_usage [simp]: "\<not> is_usage_error (py_get r k d)"
  by (cases r) simp_all

lemma py_item_no_usage [simp]: "\<not> is_usage_error (py_item r k)"
  by (cases r) (simp_all split: option.splits)

lemma py_iter_no_usage [simp]: "\<not> is_usage_error (py_iter r)"
  by (cases r) simp_all

lemma py_len_no_usage [simp]: "\<not> is_usage_error (py_len r)"
  by (cases r) simp_all

lemma py_in_no_usage [simp]: "\<not> is_usage_error (py_in k r)"
  by (cases r) simp_all

lemma py_startswith_no_usage [simp]: "\<not> is_usage_error (py_startswith r p)"
  by (cases r) simp_all





subsection \<open>The outcomes of \<^verbatim>\<open>get_show_output\<close>\<close>











text \<open>
  In \<^verbatim>\<open>/work\<close> the command prints a state with one resource in the root module
  and a child module with two, of which one is of the provider the summary lists. The
  document is returned after the summary.
\<close>

lemma show_output_run:
  "get_show_output sample_lib sample_world ''/work'' =
     ([RunProcess [''terraform'', ''show'', ''-json''] ''/work'',
       Echo (nl @ ''Terraform output summary:''),
       Echo ''- Found values section'',
       Echo ''- Found 1 resources in module'',
       Echo ''  - aws_s3_bucket: logs (logs-1)'',
       Echo ''- Child module: module.db'',
       Echo ''  - Found 2 resources in module'',
       Echo ''    - aws_db_instance: main (no id)''],
      Inr sample_state)"
  by code_simp

section \<open>The remote analyzer client: the endpoint\<close>












text \<open>The order of the two steps shows on a base URL with a slash before the segment.\<close>

lemma uncovered_slash_stays:
  "map_sum id (\<lambda>api. endpoint_url sample_lib api (JStr ''acme/infra''))
     (CasedAPI_init JNull (JStr ''https://app.cased.com//api/v1'')) =
     Inr ''https://app.cased.com//api/v1/projects/acme/infra/infra/local''"
  by code_simp

section \<open>The command: where the settings come from\<close>

lemma nonempty_idem [simp]: "nonempty (nonempty so) = nonempty so"
  by (simp add: nonempty_def split: option.splits)










section \<open>A whole run\<close>

text \<open>
  No part of the program but the live branch of \<^verbatim>\<open>analyze_terraform\<close> emits a
  request, so a run of the command in dry-run mode posts nothing, whatever the
  configuration, the directory and the output of Terraform are.
\<close>

lemma printing_simps [simp]: "printing P \<Longrightarrow> P (Echo s)" "printing P \<Longrightarrow> P (Secho s fg b)"
  by (simp_all add: printing_def)

lemma report_prints:
  assumes "printing P"
  shows "emits_only P (print_drift_report L report)"
  unfolding print_drift_report_def print_bucket_def print_managed_resource_def
    print_plain_resource_def print_change_def report_heading_def success_line_def
    managed_heading_def unmanaged_heading_def missing_heading_def changes_line_def
  using assms
  by (auto intro!: emits_only_bind emits_only_block emits_only_for_each)

lemma load_config_prints:
  assumes "printing P"
  shows "emits_only P (load_config L W c)"
  unfolding load_config_def parse_config_def Let_def using assms
  by (auto intro!: emits_only_bind split: option.splits sum.splits)

lemma emits_only_map_block:
  assumes "\<And>x. x \<in> set xs \<Longrightarrow> emits_only P (f x)"
  shows "emits_only P (block (map f xs))"
  using assms by (intro emits_only_block) auto

lemma module_resources_prints:
  assumes "printing P"
  shows "emits_only P (print_module_resources L module_data pre)"
proof (induction L module_data pre rule: print_module_resources.induct)
  case (1 L module_data pre)
  have children: "emits_only P
     (case bind_err (py_get module_data ''child_modules'' (JArr [])) py_iter of
        Inl e \<Rightarrow> raise e
      | Inr children \<Rightarrow>
          block (map (\<lambda>child.
            case py_get child ''address'' (JStr ''unknown'') of
              Inl e \<Rightarrow> raise e
            | Inr address \<Rightarrow>
                block
                 [emit (Echo (pre @ ''- Child module: '' @ py_format L address)),
                  print_module_resources L child (pre @ ''  '')]) children))"
  proof (cases "bind_err (py_get module_data ''child_modules'' (JArr [])) py_iter")
    case (Inl e)
    then show ?thesis by simp
  next
    case (Inr children)
    have "emits_only P (case py_get child ''address'' (JStr ''unknown'') of
              Inl e \<Rightarrow> raise e
            | Inr address \<Rightarrow>
                block
                 [emit (Echo (pre @ ''- Child module: '' @ py_format L address)),
                  print_module_resources L child (pre @ ''  '')])"
      if "child \<in> set children" for child
    proof (cases "py_get child ''address'' (JStr ''unknown'')")
      case (Inl e)
      then show ?thesis by simp
    next
      case (Inr address)
      have "emits_only P (print_module_resources L child (pre @ ''  ''))"
        using "1.IH" \<open>bind_err (py_get module_data ''child_modules'' (JArr [])) py_iter = Inr children\<close>
          that Inr by blast
      with Inr assms show ?thesis
        by (auto intro!: emits_only_bind)
    qed
    with Inr show ?thesis
      by (simp add: emits_only_map_block)
  qed
  show ?case
    by (subst print_module_resources.simps)
       (intro emits_only_bind emits_only_block; auto simp: children assms
          print_resource_summary_def
          intro!: emits_only_bind emits_only_for_each)
qed

lemma show_output_prints:
  assumes "printing P" and "\<And>argv d. P (RunProcess argv d)"
  shows "emits_only P (get_show_output L W d)"
  unfolding get_show_output_def show_summary_def using assms
  by (auto intro!: emits_only_bind emits_only_block module_resources_prints
      split: option.splits)

lemma dry_run_prints:
  assumes "printing P"
  shows "emits_only P (analyze_terraform L W self project environment show_output True)"
  using assms by (simp add: dry_run_result emits_only_def dry_run_output_def)

lemma emits_only_analyze:
  assumes "printing P" and "emits_only P (analyze_body L W args)"
  shows "emits_only P (analyze L W args)"
proof (cases "analyze_body L W args")
  case (Pair out r)
  with assms show ?thesis
    by (cases r) (auto simp: analyze_def emits_only_def error_report_def split: py_error.splits)
qed

lemma dry_run_never_posts:
  assumes "arg_dry_run args"
  shows "filter is_http_post (fst (analyze L W args)) = []"
proof -
  let ?P = "\<lambda>ev. \<not> is_http_post ev"
  have p: "printing ?P"
    by (simp add: printing_def)
  have "emits_only ?P (analyze_body L W args)"
    unfolding analyze_body_def using assms
    by (intro emits_only_bind load_config_prints show_output_prints report_prints p)
       (simp_all add: assms dry_run_prints [OF p])
  then have "emits_only ?P (analyze L W args)"
    by (rule emits_only_analyze [OF p])
  then show ?thesis
    by (simp add: emits_only_def filter_empty_conv list_all_iff)
qed


text \<open>
  The scenario of the specification: the configuration file sets the project
  \<^verbatim>\<open>acme/infra\<close> and the environment \<^verbatim>\<open>staging\<close>, and the command line is
  \<^verbatim>\<open>--dry-run\<close> alone. The run ends without an exception, prints the endpoint with
  the project and the redacted header, and posts nothing.
\<close>

lemma dry_run_scenario:
  "snd (analyze sample_lib sample_world
          (click_params sample_world (no_flags\<lparr>opt_dry_run := True\<rparr>))) = Inr ()
   \<and> Echo ''URL: https://app.cased.com/api/v1/projects/acme/infra/infra/local''
       \<in> set (fst (analyze sample_lib sample_world
                (click_params sample_world (no_flags\<lparr>opt_dry_run := True\<rparr>))))
   \<and> Echo ''  Authorization: Bearer [REDACTED]''
       \<in> set (fst (analyze sample_lib sample_world
                (click_params sample_world (no_flags\<lparr>opt_dry_run := True\<rparr>))))
   \<and> filter is_http_post
        (fst (analyze sample_lib sample_world
                (click_params sample_world (no_flags\<lparr>opt_dry_run := True\<rparr>)))) = []"
  by code_simp

end
